theory Spec2Isabelle
  imports Main "HOL-Library.Word"
begin

text \<open>
  The compatibility layer of the CLI proxy API: the capability resolver that rewrites a
  requested endpoint to one the model supports, the reverse proxy of the Amp module
  (its construction, its director and its response normalizer), and the registration
  of the Amp module. Each section of definitions follows one source file; the
  properties come after all definitions.
\<close>

section \<open>Capability resolver: \<open>resolveEndpointOverride\<close>\<close>

text \<open>
  The resolver of package \<^verbatim>\<open>openai\<close> (\<^verbatim>\<open>src/unnamed/part_001\<close>, tested by
  \<^verbatim>\<open>sdk/api/handlers/openai/endpoint_compat_test.go\<close>) reads two collaborators whose
  code is not part of the sources: the global model registry
  (\<^verbatim>\<open>registry.GetGlobalRegistry().GetModelInfo(id, provider)\<close>) and the suffix parser
  \<^verbatim>\<open>thinking.ParseSuffix\<close>. Both are parameters of the model. A Go \<^verbatim>\<open>nil\<close>
  pointer is \<open>None\<close>; a \<^verbatim>\<open>nil\<close> slice is the empty list.
\<close>

record ModelInfo =
  ID :: string
  SupportedEndpoints :: "string list"

record SuffixResult =
  ModelName :: string
  HasSuffix :: bool
  RawSuffix :: string

type_synonym ModelRegistry = "string \<Rightarrow> string \<Rightarrow> ModelInfo option"

definition openAIChatEndpoint :: string where
  "openAIChatEndpoint = ''/chat/completions''"

definition openAIResponsesEndpoint :: string where
  "openAIResponsesEndpoint = ''/responses''"

fun endpointListContains :: "string list \<Rightarrow> string \<Rightarrow> bool" where
  "endpointListContains [] v = False"
| "endpointListContains (item # items) v =
     (if item = v then True else endpointListContains items v)"

definition resolveEndpointOverride ::
  "ModelRegistry \<Rightarrow> (string \<Rightarrow> SuffixResult) \<Rightarrow> string \<Rightarrow> string \<Rightarrow> string \<times> bool" where
  "resolveEndpointOverride GetModelInfo ParseSuffix modelName requestedEndpoint =
     (if modelName = [] then ([], False)
      else
        let info0 = GetModelInfo modelName [];
            info =
              (if info0 = None then
                 (let baseModel = ModelName (ParseSuffix modelName) in
                  if baseModel \<noteq> [] \<and> baseModel \<noteq> modelName
                  then GetModelInfo baseModel [] else info0)
               else info0)
        in
          (case info of
             None \<Rightarrow> ([], False)
           | Some i \<Rightarrow>
               if length (SupportedEndpoints i) = 0 then ([], False)
               else if endpointListContains (SupportedEndpoints i) requestedEndpoint
                 then ([], False)
               else if requestedEndpoint = openAIChatEndpoint
                    \<and> endpointListContains (SupportedEndpoints i) openAIResponsesEndpoint
                 then (openAIResponsesEndpoint, True)
               else if requestedEndpoint = openAIResponsesEndpoint
                    \<and> endpointListContains (SupportedEndpoints i) openAIChatEndpoint
                 then (openAIChatEndpoint, True)
               else ([], False)))"

text \<open>
  The descriptor that lines 17--23 of the resolver leave in \<^verbatim>\<open>info\<close>: the exact
  identifier first, then (only when that misses) the identifier with its suffix taken
  off, looked up once. It is the resolved model of the properties below.
\<close>

definition resolvedModelInfo ::
  "ModelRegistry \<Rightarrow> (string \<Rightarrow> SuffixResult) \<Rightarrow> string \<Rightarrow> ModelInfo option" where
  "resolvedModelInfo GetModelInfo ParseSuffix modelName =
     (case GetModelInfo modelName [] of
        Some i \<Rightarrow> Some i
      | None \<Rightarrow>
          (let baseModel = ModelName (ParseSuffix modelName) in
           if baseModel \<noteq> [] \<and> baseModel \<noteq> modelName
           then GetModelInfo baseModel [] else None))"

text \<open>
  Modelled from the spec: \<^verbatim>\<open>thinking.ParseSuffix\<close>, whose package
  (\<^verbatim>\<open>internal/thinking\<close>) is not part of the sources. The spec describes the
  modifier as a trailing qualifier in parentheses: an identifier that ends in \<open>)\<close> and
  holds a \<open>(\<close> is split at its last \<open>(\<close>; any other identifier is its own base.
  It serves the concrete instances only; every general statement below holds for an
  arbitrary parser.
\<close>

fun LastIndexByte :: "string \<Rightarrow> char \<Rightarrow> nat option" where
  "LastIndexByte [] c = None"
| "LastIndexByte (x # xs) c =
     (case LastIndexByte xs c of
        Some i \<Rightarrow> Some (Suc i)
      | None \<Rightarrow> if x = c then Some 0 else None)"

definition ParseSuffix :: "string \<Rightarrow> SuffixResult" where
  "ParseSuffix model =
     (case LastIndexByte model CHR ''('' of
        None \<Rightarrow> \<lparr>ModelName = model, HasSuffix = False, RawSuffix = []\<rparr>
      | Some lastOpen \<Rightarrow>
          if model = [] \<or> last model \<noteq> CHR '')''
          then \<lparr>ModelName = model, HasSuffix = False, RawSuffix = []\<rparr>
          else \<lparr>ModelName = take lastOpen model, HasSuffix = True,
                 RawSuffix = butlast (drop (Suc lastOpen) model)\<rparr>)"

text \<open>
  The registry of the repository's own test
  (\<^verbatim>\<open>TestResolveEndpointOverride_StripsThinkingSuffix\<close>): one chat-only model.
\<close>

definition testRegistry :: ModelRegistry where
  "testRegistry modelID provider =
     (if modelID = ''test-gemini-chat-only''
      then Some \<lparr>ID = ''test-gemini-chat-only'', SupportedEndpoints = [openAIChatEndpoint]\<rparr>
      else None)"

definition responsesOnlyRegistry :: ModelRegistry where
  "responsesOnlyRegistry modelID provider =
     (if modelID = ''responses-only''
      then Some \<lparr>ID = ''responses-only'', SupportedEndpoints = [openAIResponsesEndpoint]\<rparr>
      else None)"

section \<open>Go library functions the proxy code calls\<close>

text \<open>
  Go strings are byte sequences, so \<open>string\<close> (a list of 8-bit characters) holds them
  exactly. The functions of the packages \<^verbatim>\<open>strings\<close>, \<^verbatim>\<open>unicode/utf8\<close> and
  \<^verbatim>\<open>unicode\<close> that the code calls are written out under the library's names. A rune
  is a natural number.
\<close>

type_synonym byte = "8 word"

definition byteOf :: "char \<Rightarrow> nat" where
  "byteOf c = of_char c"

fun HasPrefix :: "string \<Rightarrow> string \<Rightarrow> bool" where
  "HasPrefix s [] = True"
| "HasPrefix [] (p # ps) = False"
| "HasPrefix (c # cs) (p # ps) = (c = p \<and> HasPrefix cs ps)"

definition HasSuffix :: "string \<Rightarrow> string \<Rightarrow> bool" where
  "HasSuffix s suffix = HasPrefix (rev s) (rev suffix)"

fun Contains :: "string \<Rightarrow> string \<Rightarrow> bool" where
  "Contains [] substr = (substr = [])"
| "Contains (c # cs) substr = (HasPrefix (c # cs) substr \<or> Contains cs substr)"

fun Index :: "string \<Rightarrow> string \<Rightarrow> nat option" where
  "Index [] substr = (if substr = [] then Some 0 else None)"
| "Index (c # cs) substr =
     (if HasPrefix (c # cs) substr then Some 0
      else case Index cs substr of None \<Rightarrow> None | Some i \<Rightarrow> Some (Suc i))"

definition Cut :: "string \<Rightarrow> string \<Rightarrow> string \<times> string \<times> bool" where
  "Cut s sep =
     (case Index s sep of
        Some i \<Rightarrow> (take i s, drop (i + length sep) s, True)
      | None \<Rightarrow> (s, [], False))"

definition isUpperASCII :: "char \<Rightarrow> bool" where
  "isUpperASCII c \<longleftrightarrow> 65 \<le> byteOf c \<and> byteOf c \<le> 90"

definition isLowerASCII :: "char \<Rightarrow> bool" where
  "isLowerASCII c \<longleftrightarrow> 97 \<le> byteOf c \<and> byteOf c \<le> 122"

definition isDigit :: "char \<Rightarrow> bool" where
  "isDigit c \<longleftrightarrow> 48 \<le> byteOf c \<and> byteOf c \<le> 57"

text \<open>
  \<^verbatim>\<open>utf8.DecodeRuneInString\<close> returns the first rune of a string and the number of
  bytes it takes. A first byte below \<open>0x80\<close> is the rune itself; the bytes \<open>0xC2\<close> to
  \<open>0xF4\<close> start a sequence of two to four bytes whose second byte must lie in the
  range the library's table \<^verbatim>\<open>acceptRanges\<close> gives for the first; anything else is
  \<^verbatim>\<open>RuneError\<close> of width one. \<^verbatim>\<open>utf8.DecodeLastRuneInString\<close> does the same for
  the last rune, looking back at most four bytes for a byte that can start a rune.
  \<^verbatim>\<open>utf8.AppendRune\<close> is \<open>EncodeRune\<close>.
\<close>

type_synonym rune = nat

definition RuneError :: rune where
  "RuneError = 0xFFFD"

definition DecodeRuneInString :: "string \<Rightarrow> rune \<times> nat" where
  "DecodeRuneInString s =
     (case s of
        [] \<Rightarrow> (RuneError, 0)
      | c0 # _ \<Rightarrow>
          (let s0 = byteOf c0 in
           if s0 < 0x80 then (s0, 1)
           else if s0 < 0xC2 \<or> 0xF4 < s0 then (RuneError, 1)
           else
             (let sz = (if s0 < 0xE0 then 2 else if s0 < 0xF0 then 3 else 4);
                  lo = (if s0 = 0xE0 then 0xA0 else if s0 = 0xF0 then 0x90 else 0x80);
                  hi = (if s0 = 0xED then 0x9F else if s0 = 0xF4 then 0x8F else 0xBF)
              in
                if length s < sz then (RuneError, 1)
                else
                  (let s1 = byteOf (s ! 1) in
                   if s1 < lo \<or> hi < s1 then (RuneError, 1)
                   else if sz \<le> 2 then ((s0 mod 32) * 64 + s1 mod 64, 2)
                   else
                     (let s2 = byteOf (s ! 2) in
                      if s2 < 0x80 \<or> 0xBF < s2 then (RuneError, 1)
                      else if sz \<le> 3
                        then ((s0 mod 16) * 4096 + (s1 mod 64) * 64 + s2 mod 64, 3)
                      else
                        (let s3 = byteOf (s ! 3) in
                         if s3 < 0x80 \<or> 0xBF < s3 then (RuneError, 1)
                         else ((s0 mod 8) * 262144 + (s1 mod 64) * 4096
                                 + (s2 mod 64) * 64 + s3 mod 64, 4)))))))"

definition RuneStart :: "char \<Rightarrow> bool" where
  "RuneStart b \<longleftrightarrow> \<not> (0x80 \<le> byteOf b \<and> byteOf b < 0xC0)"

text \<open>
  The backward scan of \<^verbatim>\<open>DecodeLastRuneInString\<close>: from index \<open>k - 1\<close> down to
  \<open>lim\<close>, the first index whose byte can start a rune; when there is none the loop
  leaves \<open>lim - 1\<close>, which the library raises to \<open>0\<close> if it is negative.
\<close>

fun scanRuneStart :: "string \<Rightarrow> nat \<Rightarrow> nat \<Rightarrow> nat" where
  "scanRuneStart s lim k =
     (if k \<le> lim then (if lim = 0 then 0 else lim - 1)
      else if RuneStart (s ! (k - 1)) then k - 1
      else scanRuneStart s lim (k - 1))"

declare scanRuneStart.simps [simp del]

definition DecodeLastRuneInString :: "string \<Rightarrow> rune \<times> nat" where
  "DecodeLastRuneInString s =
     (let n = length s in
      if n = 0 then (RuneError, 0)
      else
        (let r = byteOf (s ! (n - 1)) in
         if r < 0x80 then (r, 1)
         else
           (let lim = n - 4;
                start = scanRuneStart s lim (n - 1)
            in case DecodeRuneInString (drop start s) of
                 (r2, size2) \<Rightarrow> if start + size2 \<noteq> n then (RuneError, 1) else (r2, size2))))"

definition EncodeRune :: "rune \<Rightarrow> string" where
  "EncodeRune r0 =
     (if r0 \<le> 0x7F then [char_of r0]
      else if r0 \<le> 0x7FF then [char_of (0xC0 + r0 div 64), char_of (0x80 + r0 mod 64)]
      else
        (let r = (if 0x10FFFF < r0 \<or> (0xD800 \<le> r0 \<and> r0 \<le> 0xDFFF) then RuneError else r0) in
         if r \<le> 0xFFFF then
           [char_of (0xE0 + r div 4096), char_of (0x80 + (r div 64) mod 64),
            char_of (0x80 + r mod 64)]
         else
           [char_of (0xF0 + r div 262144), char_of (0x80 + (r div 4096) mod 64),
            char_of (0x80 + (r div 64) mod 64), char_of (0x80 + r mod 64)]))"

text \<open>
  \<^verbatim>\<open>unicode.IsSpace\<close>: in Latin-1 the six ASCII white-space characters, U+0085 and
  U+00A0; beyond Latin-1 the characters of the Unicode property White\_Space.
\<close>

definition IsSpace :: "rune \<Rightarrow> bool" where
  "IsSpace r =
     (if r \<le> 0xFF then r \<in> {0x09, 0x0A, 0x0B, 0x0C, 0x0D, 0x20, 0x85, 0xA0}
      else r = 0x1680 \<or> (0x2000 \<le> r \<and> r \<le> 0x200A) \<or> r = 0x2028 \<or> r = 0x2029
           \<or> r = 0x202F \<or> r = 0x205F \<or> r = 0x3000)"

definition asciiSpace :: "char \<Rightarrow> bool" where
  "asciiSpace c \<longleftrightarrow> byteOf c \<in> {9, 10, 11, 12, 13, 32}"

text \<open>
  \<^verbatim>\<open>strings.TrimLeftFunc\<close> drops the leading runes that satisfy \<open>f\<close>.
  \<^verbatim>\<open>strings.TrimRightFunc\<close> finds, decoding backwards, the last rune that does not
  satisfy \<open>f\<close> (\<open>lastIndexFunc\<close>, \<open>None\<close> for the library's \<open>-1\<close>) and cuts the
  string after it. \<^verbatim>\<open>strings.TrimSpace\<close> trims ASCII white space from both ends
  itself and hands over to these functions as soon as it meets a byte that is not
  ASCII.
\<close>

fun TrimLeftFunc :: "string \<Rightarrow> (rune \<Rightarrow> bool) \<Rightarrow> string" where
  "TrimLeftFunc [] f = []"
| "TrimLeftFunc (c # s) f =
     (case DecodeRuneInString (c # s) of
        (r, width) \<Rightarrow> if f r then TrimLeftFunc (drop (width - 1) s) f else c # s)"

function lastIndexFunc :: "string \<Rightarrow> (rune \<Rightarrow> bool) \<Rightarrow> nat option" where
  "lastIndexFunc s f =
     (if s = [] then None
      else
        (case DecodeLastRuneInString s of
           (r, width) \<Rightarrow>
             if \<not> f r then Some (length s - width)
             else if width = 0 then None
             else lastIndexFunc (take (length s - width) s) f))"
  by pat_completeness auto
termination
  by (relation "measure (\<lambda>(s, f). length s)") auto

declare lastIndexFunc.simps [simp del]

definition TrimRightFunc :: "string \<Rightarrow> (rune \<Rightarrow> bool) \<Rightarrow> string" where
  "TrimRightFunc s f =
     (case lastIndexFunc s f of
        None \<Rightarrow> []
      | Some i \<Rightarrow>
          if 0x80 \<le> byteOf (s ! i) then take (i + snd (DecodeRuneInString (drop i s))) s
          else take (i + 1) s)"

definition TrimFunc :: "string \<Rightarrow> (rune \<Rightarrow> bool) \<Rightarrow> string" where
  "TrimFunc s f = TrimRightFunc (TrimLeftFunc s f) f"

fun trimSpaceStop :: "string \<Rightarrow> string" where
  "trimSpaceStop [] = []"
| "trimSpaceStop (c # r) =
     (if 0x80 \<le> byteOf c then TrimRightFunc (rev (c # r)) IsSpace
      else if asciiSpace c then trimSpaceStop r
      else rev (c # r))"

fun TrimSpace :: "string \<Rightarrow> string" where
  "TrimSpace [] = []"
| "TrimSpace (c # s) =
     (if 0x80 \<le> byteOf c then TrimFunc (c # s) IsSpace
      else if asciiSpace c then TrimSpace s
      else trimSpaceStop (rev (c # s)))"

text \<open>
  \<^verbatim>\<open>strings.ToLower\<close> maps the letters \<open>A\<close> to \<open>Z\<close> byte by byte when the string
  is ASCII, and otherwise maps \<^verbatim>\<open>unicode.ToLower\<close> over the runes of the string
  (\<^verbatim>\<open>strings.Map\<close>: every rune is decoded, mapped and encoded again, a byte that is
  not valid UTF-8 counting as \<^verbatim>\<open>RuneError\<close>). \<^verbatim>\<open>unicode.ToLower\<close> treats ASCII
  itself and looks every other rune up in the case tables of package \<^verbatim>\<open>unicode\<close>.
  Those tables are not part of the sources: the lookup
  \<^verbatim>\<open>unicode.To(unicode.LowerCase, r)\<close> is the parameter \<open>lowerCase\<close>.
\<close>

definition toLowerByte :: "char \<Rightarrow> char" where
  "toLowerByte c =
     (case map_of (zip ''ABCDEFGHIJKLMNOPQRSTUVWXYZ'' ''abcdefghijklmnopqrstuvwxyz'') c of
        Some l \<Rightarrow> l
      | None \<Rightarrow> c)"

definition isASCII :: "string \<Rightarrow> bool" where
  "isASCII s = list_all (\<lambda>c. byteOf c < 0x80) s"

definition lowerASCII :: "string \<Rightarrow> string" where
  "lowerASCII s = map toLowerByte s"

definition unicode_ToLower :: "(rune \<Rightarrow> rune) \<Rightarrow> rune \<Rightarrow> rune" where
  "unicode_ToLower lowerCase r =
     (if r \<le> 0x7F then (if 0x41 \<le> r \<and> r \<le> 0x5A then r + 0x20 else r)
      else lowerCase r)"

fun Map :: "(rune \<Rightarrow> rune) \<Rightarrow> string \<Rightarrow> string" where
  "Map mapping [] = []"
| "Map mapping (c # s) =
     (case DecodeRuneInString (c # s) of
        (r, width) \<Rightarrow> EncodeRune (mapping r) @ Map mapping (drop (width - 1) s))"

definition ToLower :: "(rune \<Rightarrow> rune) \<Rightarrow> string \<Rightarrow> string" where
  "ToLower lowerCase s =
     (if isASCII s then lowerASCII s else Map (unicode_ToLower lowerCase) s)"

text \<open>
  A case table for the concrete instances: the Kelvin sign U+212A, whose lower case
  is the letter \<open>k\<close>, and the capital letters of Latin-1; every rune outside these
  is left as it is.
\<close>

definition lowerCaseOfTests :: "rune \<Rightarrow> rune" where
  "lowerCaseOfTests r =
     (if r = 0x212A then 0x6B
      else if 0xC0 \<le> r \<and> r \<le> 0xDE \<and> r \<noteq> 0xD7 then r + 0x20
      else r)"

text \<open>
  \<^verbatim>\<open>strconv.FormatInt(i, 10)\<close>: the decimal digits, most significant first, with a
  minus sign for a negative number.
\<close>

fun FormatUint :: "nat \<Rightarrow> string" where
  "FormatUint n =
     (if n < 10 then [''0123456789'' ! n]
      else FormatUint (n div 10) @ [''0123456789'' ! (n mod 10)])"

declare FormatUint.simps [simp del]

definition FormatInt :: "int \<Rightarrow> string" where
  "FormatInt i = (if i < 0 then CHR ''-'' # FormatUint (nat (- i)) else FormatUint (nat i))"

text \<open>
  Errors are values: a plain message (\<^verbatim>\<open>errors.New\<close>), a message wrapping a cause
  (\<^verbatim>\<open>fmt.Errorf("...: %w", err)\<close>), and the error types of package
  \<^verbatim>\<open>net/url\<close>: \<^verbatim>\<open>*url.Error\<close> with its operation, its input and its cause,
  \<^verbatim>\<open>EscapeError\<close> and \<^verbatim>\<open>InvalidHostError\<close> with the offending text.
\<close>

datatype error =
    ErrorString string
  | Wrapf string error
  | URLError string string error
  | EscapeError string
  | InvalidHostError string

section \<open>HTTP messages as the proxy sees them\<close>

text \<open>
  \<^verbatim>\<open>http.Header\<close> is a map from canonical header names to lists of values. Every
  name the proxy code passes to \<^verbatim>\<open>Get\<close>, \<^verbatim>\<open>Set\<close> and \<^verbatim>\<open>Del\<close> is a
  literal already in canonical form, so the canonicalisation of the key is the identity
  on them and is not written out. \<^verbatim>\<open>Get\<close> returns the first value stored under the
  name, or the empty string.
\<close>

type_synonym Header = "string \<rightharpoonup> string list"

definition Header_Get :: "Header \<Rightarrow> string \<Rightarrow> string" where
  "Header_Get h k = (case h k of None \<Rightarrow> [] | Some [] \<Rightarrow> [] | Some (v # _) \<Rightarrow> v)"

definition Header_Set :: "Header \<Rightarrow> string \<Rightarrow> string \<Rightarrow> Header" where
  "Header_Set h k v = h(k \<mapsto> [v])"

definition Header_Del :: "Header \<Rightarrow> string \<Rightarrow> Header" where
  "Header_Del h k = h(k := None)"

text \<open>
  A response body is an \<^verbatim>\<open>io.ReadCloser\<close>: the bytes it will still deliver, and
  whether the stream then ends normally (\<^verbatim>\<open>io.EOF\<close>) or breaks with a read error.
  \<^verbatim>\<open>io.ReadFull\<close>, \<^verbatim>\<open>io.ReadAll\<close>, \<^verbatim>\<open>io.MultiReader\<close> and
  \<^verbatim>\<open>io.NopCloser(bytes.NewReader(b))\<close> are the library functions the normalizer
  calls; each returns what it read, the error it reports, and the reader it leaves.
\<close>

datatype ReadCloser = ReadCloser (unread: "byte list") (broken: bool)

datatype io_error = EOF | ErrUnexpectedEOF | ErrRead

definition ReadFull :: "ReadCloser \<Rightarrow> nat \<Rightarrow> nat \<times> byte list \<times> io_error option \<times> ReadCloser" where
  "ReadFull r k =
     (let n = min k (length (unread r));
          buf = take n (unread r) @ replicate (k - n) 0;
          err = (if n = k then None
                 else if broken r then Some ErrRead
                 else if n = 0 then Some EOF
                 else Some ErrUnexpectedEOF)
      in (n, buf, err, ReadCloser (drop n (unread r)) (broken r)))"

definition ReadAll :: "ReadCloser \<Rightarrow> byte list \<times> io_error option \<times> ReadCloser" where
  "ReadAll r =
     (unread r, (if broken r then Some ErrRead else None), ReadCloser [] (broken r))"

definition bytesReader :: "byte list \<Rightarrow> ReadCloser" where
  "bytesReader b = ReadCloser b False"

definition MultiReader :: "ReadCloser \<Rightarrow> ReadCloser \<Rightarrow> ReadCloser" where
  "MultiReader a b =
     (if broken a then a else ReadCloser (unread a @ unread b) (broken b))"

record Response =
  StatusCode :: int
  Header :: Header
  Body :: ReadCloser
  ContentLength :: int

text \<open>
  Package \<^verbatim>\<open>compress/gzip\<close> is a parameter of the normalizer: a function from the
  compressed bytes to what \<^verbatim>\<open>gzip.NewReader\<close> followed by \<^verbatim>\<open>io.ReadAll\<close>
  gives, which is an error of the first, an error of the second, or the decompressed
  bytes.
\<close>

datatype gzip_result = NewReaderError | DecompressError | Decompressed "byte list"

type_synonym gunzip = "byte list \<Rightarrow> gzip_result"

section \<open>The response normalizer of \<open>proxy.go\<close>\<close>

text \<open>
  \<^verbatim>\<open>src/internal/api/modules/amp/proxy.go\<close> holds two listings of the proxy. They
  share \<^verbatim>\<open>createReverseProxy\<close> and the director word for word and differ in
  \<^verbatim>\<open>isStreamingResponse\<close> and in how \<^verbatim>\<open>ModifyResponse\<close> reads the body. The
  first listing (lines 1--152) is modelled under the source's names, the second
  (lines 153--305) under the same names with the suffix \<open>_second\<close>. Log calls have no
  effect on the response and are left out. The second listing lower-cases the
  \<open>Transfer-Encoding\<close> value with \<^verbatim>\<open>strings.ToLower\<close>, so its functions take the
  case table \<open>lowerCase\<close> of package \<^verbatim>\<open>unicode\<close> as their first argument.
\<close>

definition isStreamingResponse :: "Response \<Rightarrow> bool" where
  "isStreamingResponse resp =
     (let contentType = Header_Get (Header resp) ''Content-Type'' in
      if Contains contentType ''text/event-stream'' then True else False)"

definition isStreamingResponse_second :: "(rune \<Rightarrow> rune) \<Rightarrow> Response \<Rightarrow> bool" where
  "isStreamingResponse_second lowerCase resp =
     (let contentType = Header_Get (Header resp) ''Content-Type'' in
      if Contains contentType ''text/event-stream'' then True
      else if Contains (ToLower lowerCase (Header_Get (Header resp) ''Transfer-Encoding''))
                ''chunked''
        then True
      else False)"

definition ModifyResponse :: "gunzip \<Rightarrow> Response \<Rightarrow> error option \<times> Response" where
  "ModifyResponse gunzip resp =
     (if StatusCode resp < 200 \<or> StatusCode resp \<ge> 300 then (None, resp)
      else if Header_Get (Header resp) ''Content-Encoding'' \<noteq> [] then (None, resp)
      else if isStreamingResponse resp then (None, resp)
      else
        (case ReadFull (Body resp) 2 of
           (n, header, _, body1) \<Rightarrow>
             if n \<ge> 2 \<and> header ! 0 = 0x1f \<and> header ! 1 = 0x8b then
               (case ReadAll body1 of
                  (rest, err, body2) \<Rightarrow>
                    if err \<noteq> None then
                      (None, resp\<lparr>Body := MultiReader (bytesReader (take n header)) body2\<rparr>)
                    else
                      (let gzippedData = take n header @ rest in
                       case gunzip gzippedData of
                         NewReaderError \<Rightarrow> (None, resp\<lparr>Body := bytesReader gzippedData\<rparr>)
                       | DecompressError \<Rightarrow> (None, resp\<lparr>Body := bytesReader gzippedData\<rparr>)
                       | Decompressed decompressed \<Rightarrow>
                           (None,
                            resp\<lparr>Body := bytesReader decompressed,
                                 ContentLength := int (length decompressed),
                                 Header :=
                                   Header_Set
                                     (Header_Del (Header_Del (Header resp) ''Content-Encoding'')
                                        ''Content-Length'')
                                     ''Content-Length''
                                     (FormatInt (int (length decompressed)))\<rparr>)))
             else (None, resp\<lparr>Body := MultiReader (bytesReader (take n header)) body1\<rparr>)))"

text \<open>
  The second listing reads through \<^verbatim>\<open>io.TeeReader(resp.Body, &buf)\<close>: every byte
  read through the tee is also appended to \<^verbatim>\<open>buf\<close>. That holds for the two peeked
  bytes and for the bytes \<^verbatim>\<open>io.ReadAll(peeker)\<close> reads afterwards, so at line 240
  \<^verbatim>\<open>buf\<close> is the whole body and \<^verbatim>\<open>fullBody\<close> is the body after its first two
  bytes.
\<close>

definition ModifyResponse_second ::
  "(rune \<Rightarrow> rune) \<Rightarrow> gunzip \<Rightarrow> Response \<Rightarrow> error option \<times> Response" where
  "ModifyResponse_second lowerCase gunzip resp =
     (if StatusCode resp < 200 \<or> StatusCode resp \<ge> 300 then (None, resp)
      else if Header_Get (Header resp) ''Content-Encoding'' \<noteq> [] then (None, resp)
      else if isStreamingResponse_second lowerCase resp then (None, resp)
      else
        (case ReadFull (Body resp) 2 of
           (n, header, err, body1) \<Rightarrow>
             (let buf1 = take n header in
              if err \<noteq> None \<and> err \<noteq> Some EOF \<and> err \<noteq> Some ErrUnexpectedEOF then
                (None, resp\<lparr>Body := MultiReader (bytesReader buf1) body1\<rparr>)
              else if n \<ge> 2 \<and> header ! 0 = 0x1f \<and> header ! 1 = 0x8b then
                (case ReadAll body1 of
                   (fullBody, err2, body2) \<Rightarrow>
                     (let buf2 = buf1 @ fullBody in
                      if err2 \<noteq> None then
                        (None, resp\<lparr>Body := MultiReader (bytesReader buf2) body2\<rparr>)
                      else
                        (let gzippedData = buf2 @ fullBody in
                         case gunzip gzippedData of
                           NewReaderError \<Rightarrow> (None, resp\<lparr>Body := bytesReader gzippedData\<rparr>)
                         | DecompressError \<Rightarrow> (None, resp\<lparr>Body := bytesReader gzippedData\<rparr>)
                         | Decompressed decompressed \<Rightarrow>
                             (None,
                              resp\<lparr>Body := bytesReader decompressed,
                                   ContentLength := int (length decompressed),
                                   Header := Header_Del (Header resp) ''Content-Encoding''\<rparr>))))
              else (None, resp\<lparr>Body := MultiReader (bytesReader buf1) body1\<rparr>))))"

text \<open>
  The byte strings of the repository's test \<^verbatim>\<open>TestModifyResponse_GzipScenarios\<close>:
  the JSON payload \<^verbatim>\<open>{"ok":true}\<close>, a gzip stream of it (RFC 1952, one deflate
  block), the stream cut after its ten header bytes, and the magic bytes followed by
  the text \<^verbatim>\<open>notgzip\<close>; \<open>plain\<close> is the text \<^verbatim>\<open>plain\<close>. \<open>gunzipOfTests\<close>
  stands for the decompressor on these inputs in the concrete instances: it inflates
  the one valid stream, reports a header error for input that has no complete gzip
  header, and a decompression error otherwise. \<open>mkResp\<close> is the helper of the test
  file.
\<close>

definition goodJSON :: "byte list" where
  "goodJSON = [0x7b, 0x22, 0x6f, 0x6b, 0x22, 0x3a, 0x74, 0x72, 0x75, 0x65, 0x7d]"

definition good :: "byte list" where
  "good = [0x1f, 0x8b, 0x08, 0x00, 0x00, 0x00, 0x00, 0x00, 0x02, 0x03,
           0xab, 0x56, 0xca, 0xcf, 0x56, 0xb2, 0x2a, 0x29, 0x2a, 0x4d, 0xad, 0x05, 0x00,
           0x90, 0x5f, 0xd4, 0xa7, 0x0b, 0x00, 0x00, 0x00]"

definition truncated :: "byte list" where
  "truncated = take 10 good"

definition corrupted :: "byte list" where
  "corrupted = [0x1f, 0x8b] @ [0x6e, 0x6f, 0x74, 0x67, 0x7a, 0x69, 0x70]"

definition gunzipOfTests :: gunzip where
  "gunzipOfTests b =
     (if b = good then Decompressed goodJSON
      else if length b < 10 \<or> take 3 b \<noteq> [0x1f, 0x8b, 0x08] then NewReaderError
      else DecompressError)"

definition mkResp :: "int \<Rightarrow> Header \<Rightarrow> byte list \<Rightarrow> Response" where
  "mkResp status hdr body =
     \<lparr>StatusCode = status, Header = hdr, Body = bytesReader body,
      ContentLength = int (length body)\<rparr>"

definition gzipMagic :: "byte list" where
  "gzipMagic = [0x1f, 0x8b]"

definition plain :: "byte list" where
  "plain = [0x70, 0x6c, 0x61, 0x69, 0x6e]"

text \<open>
  The headers of \<^verbatim>\<open>TestModifyResponse_SkipsStreamingResponses\<close>, a
  server-sent-events content type written with capital letters, and a transfer
  encoding written with the Kelvin sign U+212A (the bytes \<open>E2 84 AA\<close>) for the letter
  \<open>k\<close>.
\<close>

definition sseHeader :: Header where
  "sseHeader = [''Content-Type'' \<mapsto> [''text/event-stream'']]"

definition chunkedHeader :: Header where
  "chunkedHeader = [''Transfer-Encoding'' \<mapsto> [''chunked'']]"

definition upperCaseSseHeader :: Header where
  "upperCaseSseHeader = [''Content-Type'' \<mapsto> [''Text/Event-Stream'']]"

definition kelvinChunkedHeader :: Header where
  "kelvinChunkedHeader =
     [''Transfer-Encoding'' \<mapsto> [''chun'' @ [CHR 0xE2, CHR 0x84, CHR 0xAA] @ ''ed'']]"

section \<open>\<open>url.Parse\<close> of the Go standard library\<close>

text \<open>
  \<^verbatim>\<open>createReverseProxy\<close> accepts or rejects an address by what \<^verbatim>\<open>url.Parse\<close>
  returns. Package \<^verbatim>\<open>net/url\<close> belongs to the Go standard library, not to the
  repository; the functions below follow the library's \<^verbatim>\<open>Parse\<close>, \<^verbatim>\<open>parse\<close>,
  \<^verbatim>\<open>getScheme\<close>, \<^verbatim>\<open>parseAuthority\<close>, \<^verbatim>\<open>parseHost\<close> and \<^verbatim>\<open>unescape\<close>
  step by step, under the library's names. Of the parsed URL the model keeps the
  fields below; \<^verbatim>\<open>RawPath\<close> and \<^verbatim>\<open>RawFragment\<close>, which only record how the
  input was escaped, are left out. \<open>shouldEscapeHost c\<close> is the library's
  \<^verbatim>\<open>shouldEscape(c, encodeHost)\<close>, the one mode in which parsing consults it.
  The branch for a host in brackets is the library's as it stood before later releases
  restricted such hosts to IPv6 literals; no property below depends on it.
  \<^verbatim>\<open>parse\<close> lower-cases the scheme with \<^verbatim>\<open>strings.ToLower\<close>. A scheme that
  \<^verbatim>\<open>getScheme\<close> returns holds only ASCII letters, digits and the characters
  \<open>+\<close>, \<open>-\<close>, \<open>.\<close>, so \<^verbatim>\<open>strings.ToLower\<close> takes its ASCII path there, which is
  \<open>lowerASCII\<close> (lemma \<open>getScheme_ToLower\<close>).
\<close>

record Userinfo =
  username :: string
  password :: string
  passwordSet :: bool

record URL =
  Scheme :: string
  Opaque :: string
  User :: "Userinfo option"
  Host :: string
  Path :: string
  ForceQuery :: bool
  RawQuery :: string
  Fragment :: string
  OmitHost :: bool

definition emptyURL :: URL where
  "emptyURL = \<lparr>Scheme = [], Opaque = [], User = None, Host = [], Path = [],
     ForceQuery = False, RawQuery = [], Fragment = [], OmitHost = False\<rparr>"

definition IsAbs :: "URL \<Rightarrow> bool" where
  "IsAbs u \<longleftrightarrow> Scheme u \<noteq> []"

datatype encoding =
    encodePath | encodePathSegment | encodeHost | encodeZone
  | encodeUserPassword | encodeQueryComponent | encodeFragment

definition stringContainsCTLByte :: "string \<Rightarrow> bool" where
  "stringContainsCTLByte s = list_ex (\<lambda>b. byteOf b < 0x20 \<or> byteOf b = 0x7f) s"

fun getSchemeLoop :: "string \<Rightarrow> nat \<Rightarrow> string \<Rightarrow> error + string \<times> string" where
  "getSchemeLoop rawURL i [] = Inr ([], rawURL)"
| "getSchemeLoop rawURL i (c # cs) =
     (if isLowerASCII c \<or> isUpperASCII c then getSchemeLoop rawURL (Suc i) cs
      else if isDigit c \<or> c = CHR ''+'' \<or> c = CHR ''-'' \<or> c = CHR ''.'' then
        (if i = 0 then Inr ([], rawURL) else getSchemeLoop rawURL (Suc i) cs)
      else if c = CHR '':'' then
        (if i = 0 then Inl (ErrorString ''missing protocol scheme'')
         else Inr (take i rawURL, drop (Suc i) rawURL))
      else Inr ([], rawURL))"

definition getScheme :: "string \<Rightarrow> error + string \<times> string" where
  "getScheme rawURL = getSchemeLoop rawURL 0 rawURL"

definition ishex :: "char \<Rightarrow> bool" where
  "ishex c \<longleftrightarrow> isDigit c \<or> c \<in> set ''abcdef'' \<or> c \<in> set ''ABCDEF''"

definition unhex :: "char \<Rightarrow> nat" where
  "unhex c =
     (if isDigit c then byteOf c - 48
      else if c \<in> set ''abcdef'' then byteOf c - 97 + 10
      else if c \<in> set ''ABCDEF'' then byteOf c - 65 + 10
      else 0)"

definition shouldEscapeHost :: "char \<Rightarrow> bool" where
  "shouldEscapeHost c \<longleftrightarrow>
     \<not> (isLowerASCII c \<or> isUpperASCII c \<or> isDigit c
        \<or> c \<in> set ''!$&()*+,;=:[]<>'' \<or> c = CHR 0x27 \<or> c = CHR 0x22
        \<or> c \<in> set ''-_.~'')"

fun unescapeCheck :: "encoding \<Rightarrow> string \<Rightarrow> error option" where
  "unescapeCheck mode [] = None"
| "unescapeCheck mode (c # s) =
     (if c = CHR ''%'' then
        (case s of
           h1 # h2 # rest \<Rightarrow>
             if \<not> ishex h1 \<or> \<not> ishex h2 then Some (EscapeError [c, h1, h2])
             else if mode = encodeHost \<and> unhex h1 < 8 \<and> [c, h1, h2] \<noteq> ''%25''
               then Some (EscapeError [c, h1, h2])
             else if mode = encodeZone \<and> [c, h1, h2] \<noteq> ''%25''
                  \<and> char_of (16 * unhex h1 + unhex h2) \<noteq> CHR '' ''
                  \<and> shouldEscapeHost (char_of (16 * unhex h1 + unhex h2))
               then Some (EscapeError [c, h1, h2])
             else unescapeCheck mode rest
         | _ \<Rightarrow> Some (EscapeError (c # s)))
      else if (mode = encodeHost \<or> mode = encodeZone) \<and> byteOf c < 0x80 \<and> shouldEscapeHost c
        then Some (InvalidHostError [c])
      else unescapeCheck mode s)"

fun unescapeDecode :: "encoding \<Rightarrow> string \<Rightarrow> string" where
  "unescapeDecode mode [] = []"
| "unescapeDecode mode (c # s) =
     (if c = CHR ''%'' then
        (case s of
           h1 # h2 # rest \<Rightarrow> char_of (16 * unhex h1 + unhex h2) # unescapeDecode mode rest
         | _ \<Rightarrow> c # s)
      else if c = CHR ''+'' \<and> mode = encodeQueryComponent then CHR '' '' # unescapeDecode mode s
      else c # unescapeDecode mode s)"

definition unescape :: "string \<Rightarrow> encoding \<Rightarrow> error + string" where
  "unescape s mode =
     (case unescapeCheck mode s of
        Some err \<Rightarrow> Inl err
      | None \<Rightarrow> Inr (unescapeDecode mode s))"

definition validOptionalPort :: "string \<Rightarrow> bool" where
  "validOptionalPort port =
     (case port of
        [] \<Rightarrow> True
      | c # ds \<Rightarrow> c = CHR '':'' \<and> list_all isDigit ds)"

definition validUserinfo :: "string \<Rightarrow> bool" where
  "validUserinfo s =
     list_all (\<lambda>r. isUpperASCII r \<or> isLowerASCII r \<or> isDigit r
                 \<or> r \<in> set ''-._:~!$&()*+,;=%@'' \<or> r = CHR 0x27) s"

definition invalidPort :: "string \<Rightarrow> error" where
  "invalidPort colonPort =
     ErrorString (''invalid port '' @ [CHR 0x22] @ colonPort @ [CHR 0x22] @ '' after host'')"

definition missingBracket :: error where
  "missingBracket = ErrorString (''missing '' @ [CHR 0x27, CHR '']'', CHR 0x27] @ '' in host'')"

definition parseHost :: "string \<Rightarrow> error + string" where
  "parseHost host =
     (if HasPrefix host ''['' then
        (case LastIndexByte host CHR '']'' of
           None \<Rightarrow> Inl missingBracket
         | Some i \<Rightarrow>
             if \<not> validOptionalPort (drop (Suc i) host) then Inl (invalidPort (drop (Suc i) host))
             else
               (case Index (take i host) ''%25'' of
                  Some zone \<Rightarrow>
                    (case unescape (take zone host) encodeHost of
                       Inl err \<Rightarrow> Inl err
                     | Inr host1 \<Rightarrow>
                         (case unescape (take (i - zone) (drop zone host)) encodeZone of
                            Inl err \<Rightarrow> Inl err
                          | Inr host2 \<Rightarrow>
                              (case unescape (drop i host) encodeHost of
                                 Inl err \<Rightarrow> Inl err
                               | Inr host3 \<Rightarrow> Inr (host1 @ host2 @ host3))))
                | None \<Rightarrow> unescape host encodeHost))
      else
        (case LastIndexByte host CHR '':'' of
           Some i \<Rightarrow>
             if \<not> validOptionalPort (drop i host) then Inl (invalidPort (drop i host))
             else unescape host encodeHost
         | None \<Rightarrow> unescape host encodeHost))"

definition parseAuthority :: "string \<Rightarrow> error + Userinfo option \<times> string" where
  "parseAuthority authority =
     (let i = LastIndexByte authority CHR ''@'' in
      case (case i of None \<Rightarrow> parseHost authority
                    | Some k \<Rightarrow> parseHost (drop (Suc k) authority)) of
        Inl err \<Rightarrow> Inl err
      | Inr host \<Rightarrow>
          (case i of
             None \<Rightarrow> Inr (None, host)
           | Some k \<Rightarrow>
               (let userinfo = take k authority in
                if \<not> validUserinfo userinfo then Inl (ErrorString ''net/url: invalid userinfo'')
                else if \<not> Contains userinfo '':'' then
                  (case unescape userinfo encodeUserPassword of
                     Inl err \<Rightarrow> Inl err
                   | Inr u \<Rightarrow>
                       Inr (Some \<lparr>username = u, password = [], passwordSet = False\<rparr>, host))
                else
                  (case Cut userinfo '':'' of
                     (name, pass, _) \<Rightarrow>
                       (case unescape name encodeUserPassword of
                          Inl err \<Rightarrow> Inl err
                        | Inr u \<Rightarrow>
                            (case unescape pass encodeUserPassword of
                               Inl err \<Rightarrow> Inl err
                             | Inr p \<Rightarrow>
                                 Inr (Some \<lparr>username = u, password = p, passwordSet = True\<rparr>,
                                      host)))))))"

definition setPath :: "URL \<Rightarrow> string \<Rightarrow> error + URL" where
  "setPath u p =
     (case unescape p encodePath of
        Inl err \<Rightarrow> Inl err
      | Inr path \<Rightarrow> Inr (u\<lparr>Path := path\<rparr>))"

definition setFragment :: "URL \<Rightarrow> string \<Rightarrow> error + URL" where
  "setFragment u f =
     (case unescape f encodeFragment of
        Inl err \<Rightarrow> Inl err
      | Inr frag \<Rightarrow> Inr (u\<lparr>Fragment := frag\<rparr>))"

definition parse :: "string \<Rightarrow> bool \<Rightarrow> error + URL" where
  "parse rawURL viaRequest =
     (if stringContainsCTLByte rawURL
        then Inl (ErrorString ''net/url: invalid control character in URL'')
      else if rawURL = [] \<and> viaRequest then Inl (ErrorString ''empty url'')
      else if rawURL = ''*'' then Inr (emptyURL\<lparr>Path := ''*''\<rparr>)
      else
        (case getScheme rawURL of
           Inl err \<Rightarrow> Inl err
         | Inr (scheme0, rest0) \<Rightarrow>
             (let url0 = emptyURL\<lparr>Scheme := lowerASCII scheme0\<rparr>;
                  (rest, url1) =
                    (if HasSuffix rest0 ''?'' \<and> count_list rest0 CHR ''?'' = 1
                     then (butlast rest0, url0\<lparr>ForceQuery := True\<rparr>)
                     else (case Cut rest0 ''?'' of
                             (before, after, _) \<Rightarrow> (before, url0\<lparr>RawQuery := after\<rparr>)))
              in
                if \<not> HasPrefix rest ''/'' \<and> Scheme url1 \<noteq> []
                  then Inr (url1\<lparr>Opaque := rest\<rparr>)
                else if \<not> HasPrefix rest ''/'' \<and> viaRequest
                  then Inl (ErrorString ''invalid URI for request'')
                else if \<not> HasPrefix rest ''/'' \<and> Contains (fst (Cut rest ''/'')) '':''
                  then Inl (ErrorString ''first path segment in URL cannot contain colon'')
                else if (Scheme url1 \<noteq> [] \<or> (\<not> viaRequest \<and> \<not> HasPrefix rest ''///''))
                        \<and> HasPrefix rest ''//'' then
                  (let authority0 = drop 2 rest;
                       (authority, rest2) =
                         (case Index authority0 ''/'' of
                            Some i \<Rightarrow> (take i authority0, drop i authority0)
                          | None \<Rightarrow> (authority0, []))
                   in case parseAuthority authority of
                        Inl err \<Rightarrow> Inl err
                      | Inr (user, host) \<Rightarrow> setPath (url1\<lparr>User := user, Host := host\<rparr>) rest2)
                else if Scheme url1 \<noteq> [] \<and> HasPrefix rest ''/''
                  then setPath (url1\<lparr>OmitHost := True\<rparr>) rest
                else setPath url1 rest)))"

definition Parse :: "string \<Rightarrow> error + URL" where
  "Parse rawURL =
     (case Cut rawURL ''#'' of
        (u, frag, _) \<Rightarrow>
          (case parse u False of
             Inl err \<Rightarrow> Inl (URLError ''parse'' u err)
           | Inr url \<Rightarrow>
               if frag = [] then Inr url
               else (case setFragment url frag of
                       Inl err \<Rightarrow> Inl (URLError ''parse'' rawURL err)
                     | Inr url2 \<Rightarrow> Inr url2)))"

section \<open>\<open>createReverseProxy\<close> and the director\<close>

text \<open>
  A secret source is the capability \<^verbatim>\<open>Get(ctx) (string, error)\<close>; its implementations
  (\<^verbatim>\<open>NewStaticSecretSource\<close>, \<^verbatim>\<open>NewMultiSourceSecret\<close>) are not part of the
  sources.
  In the model it is the function that gives, for the request whose context it is
  called with, the value and the error of that call.
\<close>

record Request =
  Method :: string
  URLPath :: string
  ReqHost :: string
  ReqHeader :: Header

type_synonym SecretSource = "Request \<Rightarrow> string \<times> error option"

text \<open>
  The proxy instance: what the three closures of \<^verbatim>\<open>createReverseProxy\<close> capture,
  the parsed upstream address and the secret source. The director, the response
  normalizer and the error handler are the functions installed on every instance.
  \<^verbatim>\<open>httputil.NewSingleHostReverseProxy\<close> cannot fail; the director it installs
  (\<^verbatim>\<open>originalDirector\<close>, library code that rewrites scheme, host, path and query of
  the outgoing URL) is a parameter of \<open>Director\<close>.
\<close>

record ReverseProxy =
  Target :: URL
  Secret :: SecretSource

definition createReverseProxy :: "string \<Rightarrow> SecretSource \<Rightarrow> error + ReverseProxy" where
  "createReverseProxy upstreamURL secretSource =
     (case Parse upstreamURL of
        Inl err \<Rightarrow> Inl (Wrapf ''invalid amp upstream url: '' err)
      | Inr parsed \<Rightarrow> Inr \<lparr>Target = parsed, Secret = secretSource\<rparr>)"

definition Director :: "(Request \<Rightarrow> Request) \<Rightarrow> ReverseProxy \<Rightarrow> Request \<Rightarrow> Request" where
  "Director originalDirector proxy req =
     (let req1 = originalDirector req;
          req2 = req1\<lparr>ReqHost := Host (Target proxy)\<rparr>
      in case Secret proxy req2 of
           (key, err) \<Rightarrow>
             if err = None \<and> key \<noteq> [] then
               req2\<lparr>ReqHeader :=
                      Header_Set (Header_Set (ReqHeader req2) ''X-Api-Key'' key)
                        ''Authorization'' (''Bearer '' @ key)\<rparr>
             else req2)"

text \<open>
  Modelled from the spec: \<^verbatim>\<open>NewStaticSecretSource\<close>, which the tests call and whose
  code is not part of the sources. The spec's static variant returns the fixed value and
  never errors. \<open>failingSecretSource\<close> is a source whose lookup fails, as a file read
  may. \<open>identityDirector\<close> stands for the library's director in the concrete
  instances.
\<close>

definition NewStaticSecretSource :: "string \<Rightarrow> SecretSource" where
  "NewStaticSecretSource v = (\<lambda>req. (v, None))"

definition failingSecretSource :: SecretSource where
  "failingSecretSource = (\<lambda>req. ([], Some (ErrorString ''open secrets.json: permission denied'')))"

definition identityDirector :: "Request \<Rightarrow> Request" where
  "identityDirector req = req"

definition testRequest :: Request where
  "testRequest = \<lparr>Method = ''GET'', URLPath = ''/test'', ReqHost = ''127.0.0.1'',
     ReqHeader = Map.empty\<rparr>"

definition testProxy :: "SecretSource \<Rightarrow> ReverseProxy" where
  "testProxy src =
     \<lparr>Target = emptyURL\<lparr>Scheme := ''http'', Host := ''example.com''\<rparr>, Secret = src\<rparr>"

section \<open>The Amp module: \<open>Register\<close>\<close>

text \<open>
  The module and its registration are listed after the tests in
  \<^verbatim>\<open>src/internal/api/modules/amp/proxy_test.go\<close> (lines 394--508), the route tables
  after the proxy in \<^verbatim>\<open>proxy.go\<close> (lines 306--405). The \<^verbatim>\<open>gin\<close> engine is the
  list of the routes registered so
  far, each with its verb, its full pattern, the middleware of its group and its
  handler. The access manager is an opaque pointer that registration never reads.
  \<^verbatim>\<open>NewMultiSourceSecret\<close> is a parameter of \<open>Register\<close>.
\<close>

typedecl Manager

datatype Middleware = AuthMiddleware | AllowAll

datatype Handler =
    ProxyHandler ReverseProxy
  | AmpModelsHandler
  | OpenAIChatCompletions
  | OpenAICompletions
  | OpenAIResponses
  | ClaudeMessages
  | ClaudeCountTokens
  | GeminiModels
  | GeminiHandler
  | GeminiGetHandler

record Route =
  Verb :: string
  Pattern :: string
  Guards :: "Middleware list"
  Serves :: Handler

type_synonym Engine = "Route list"

record Config =
  AmpUpstreamURL :: string
  AmpUpstreamAPIKey :: string

record AmpModule =
  secretSource :: "SecretSource option"
  proxy :: "ReverseProxy option"
  accessManager :: "Manager option"
  authMiddleware_field :: "Middleware option"
  enabled :: bool

definition New :: "Manager option \<Rightarrow> Middleware option \<Rightarrow> AmpModule" where
  "New manager authMiddleware =
     \<lparr>secretSource = None, proxy = None, accessManager = manager,
      authMiddleware_field = authMiddleware, enabled = False\<rparr>"

definition authMiddleware :: "AmpModule \<Rightarrow> Middleware" where
  "authMiddleware m = (case authMiddleware_field m of Some mw \<Rightarrow> mw | None \<Rightarrow> AllowAll)"

definition registerManagementRoutes :: "Engine \<Rightarrow> Handler \<Rightarrow> Engine" where
  "registerManagementRoutes engine proxyHandler =
     engine @
     map (\<lambda>p. \<lparr>Verb = ''ANY'', Pattern = ''/api'' @ p, Guards = [], Serves = proxyHandler\<rparr>)
       [''/internal'', ''/internal/*path'', ''/user'', ''/user/*path'',
        ''/auth'', ''/auth/*path'', ''/meta'', ''/meta/*path'', ''/ads'',
        ''/telemetry'', ''/telemetry/*path'', ''/threads'', ''/threads/*path'',
        ''/otel'', ''/otel/*path'', ''/provider/google/v1beta1/*path'']"

definition registerProviderAliases :: "AmpModule \<Rightarrow> Engine \<Rightarrow> Engine" where
  "registerProviderAliases m engine =
     engine @
     map (\<lambda>(v, p, h). \<lparr>Verb = v, Pattern = ''/api/provider/:provider'' @ p,
                        Guards = [authMiddleware m], Serves = h\<rparr>)
       [(''GET'', ''/models'', AmpModelsHandler),
        (''POST'', ''/chat/completions'', OpenAIChatCompletions),
        (''POST'', ''/completions'', OpenAICompletions),
        (''POST'', ''/responses'', OpenAIResponses),
        (''GET'', ''/v1/models'', AmpModelsHandler),
        (''POST'', ''/v1/chat/completions'', OpenAIChatCompletions),
        (''POST'', ''/v1/completions'', OpenAICompletions),
        (''POST'', ''/v1/responses'', OpenAIResponses),
        (''POST'', ''/v1/messages'', ClaudeMessages),
        (''POST'', ''/v1/messages/count_tokens'', ClaudeCountTokens),
        (''GET'', ''/v1beta/models'', GeminiModels),
        (''POST'', ''/v1beta/models/:action'', GeminiHandler),
        (''GET'', ''/v1beta/models/:action'', GeminiGetHandler)]"

definition Register ::
  "(string \<Rightarrow> nat \<Rightarrow> SecretSource) \<Rightarrow> AmpModule \<Rightarrow> Engine \<Rightarrow> Config
     \<Rightarrow> error option \<times> AmpModule \<times> Engine" where
  "Register NewMultiSourceSecret m engine cfg =
     (let upstreamURL = TrimSpace (AmpUpstreamURL cfg) in
      if upstreamURL = [] then (None, m\<lparr>enabled := False\<rparr>, engine)
      else
        (let source = NewMultiSourceSecret (AmpUpstreamAPIKey cfg) 0;
             m1 = m\<lparr>secretSource := Some source\<rparr>
         in case createReverseProxy upstreamURL source of
              Inl err \<Rightarrow> (Some (Wrapf ''failed to create amp proxy: '' err), m1, engine)
            | Inr p \<Rightarrow>
                (let m2 = m1\<lparr>proxy := Some p, enabled := True\<rparr>;
                     handler = ProxyHandler p;
                     engine1 = registerManagementRoutes engine handler;
                     engine2 = registerProviderAliases m2 engine1
                 in (None, m2, engine2))))"

text \<open>
  Modelled from the spec: \<^verbatim>\<open>NewMultiSourceSecret\<close>, whose code is not part of the
  sources, in an environment that has neither the variable nor the file. The spec's
  multi-source variant takes the explicitly configured value first, and with every
  source empty it returns the empty string and no error.
\<close>

definition configOnlySecret :: "string \<Rightarrow> nat \<Rightarrow> SecretSource" where
  "configOnlySecret configured ttl = (\<lambda>req. (configured, None))"

definition cfgOf :: "string \<Rightarrow> Config" where
  "cfgOf url = \<lparr>AmpUpstreamURL = url, AmpUpstreamAPIKey = ''k''\<rparr>"

section \<open>Properties of the capability resolver\<close>

lemma endpointListContains_set: "endpointListContains items v \<longleftrightarrow> v \<in> set items"
  by (induction items) auto

lemma resolveEndpointOverride_resolved:
  "resolveEndpointOverride reg ps m e =
     (if m = [] then ([], False)
      else case resolvedModelInfo reg ps m of
        None \<Rightarrow> ([], False)
      | Some i \<Rightarrow>
          if SupportedEndpoints i = [] then ([], False)
          else if e \<in> set (SupportedEndpoints i) then ([], False)
          else if e = openAIChatEndpoint \<and> openAIResponsesEndpoint \<in> set (SupportedEndpoints i)
            then (openAIResponsesEndpoint, True)
          else if e = openAIResponsesEndpoint \<and> openAIChatEndpoint \<in> set (SupportedEndpoints i)
            then (openAIChatEndpoint, True)
          else ([], False))"
  by (auto simp: resolveEndpointOverride_def resolvedModelInfo_def Let_def
        endpointListContains_set split: option.splits)

lemma testRegistry_resolved:
  "resolvedModelInfo testRegistry ParseSuffix ''test-gemini-chat-only'' =
     Some \<lparr>ID = ''test-gemini-chat-only'', SupportedEndpoints = [''/chat/completions'']\<rparr>"
  by (simp add: resolvedModelInfo_def testRegistry_def openAIChatEndpoint_def)

lemma responsesOnlyRegistry_resolved:
  "resolvedModelInfo responsesOnlyRegistry ParseSuffix ''responses-only'' =
     Some \<lparr>ID = ''responses-only'', SupportedEndpoints = [''/responses'']\<rparr>"
  by (simp add: resolvedModelInfo_def responsesOnlyRegistry_def openAIResponsesEndpoint_def)

lemma ParseSuffix_high:
  "ModelName (ParseSuffix ''test-gemini-chat-only(high)'') = ''test-gemini-chat-only''"
  by (simp add: ParseSuffix_def)

lemma ParseSuffix_high_low:
  "ModelName (ParseSuffix ''test-gemini-chat-only(high)(low)'') = ''test-gemini-chat-only(high)''"
  by (simp add: ParseSuffix_def)

lemma testRegistry_resolved_suffixed:
  "resolvedModelInfo testRegistry ParseSuffix ''test-gemini-chat-only(high)'' =
     Some \<lparr>ID = ''test-gemini-chat-only'', SupportedEndpoints = [''/chat/completions'']\<rparr>"
  by (simp add: resolvedModelInfo_def testRegistry_def openAIChatEndpoint_def ParseSuffix_high)

lemma resolve_test_base:
  "resolveEndpointOverride testRegistry ParseSuffix ''test-gemini-chat-only'' ''/responses''
     = (''/chat/completions'', True)"
  by (simp add: resolveEndpointOverride_resolved testRegistry_resolved
        openAIChatEndpoint_def openAIResponsesEndpoint_def)

text \<open>
  Claim C6. For a model name that is not empty and resolves to a descriptor, the
  resolver is the two-way compatibility mapping and nothing else: a requested endpoint
  that the descriptor supports gets no override; a request for \<open>/chat/completions\<close>
  that is unsupported while \<open>/responses\<close> is supported is overridden to
  \<open>/responses\<close>; the same with the two shapes exchanged; every other mismatch gets
  no override.
\<close>

theorem C6_two_way_mapping:
  assumes "modelName \<noteq> []"
    and "resolvedModelInfo reg ps modelName = Some info"
  shows
    "(requested \<in> set (SupportedEndpoints info) \<longrightarrow>
        resolveEndpointOverride reg ps modelName requested = ([], False))
   \<and> (requested = ''/chat/completions'' \<and> requested \<notin> set (SupportedEndpoints info)
        \<and> ''/responses'' \<in> set (SupportedEndpoints info) \<longrightarrow>
        resolveEndpointOverride reg ps modelName requested = (''/responses'', True))
   \<and> (requested = ''/responses'' \<and> requested \<notin> set (SupportedEndpoints info)
        \<and> ''/chat/completions'' \<in> set (SupportedEndpoints info) \<longrightarrow>
        resolveEndpointOverride reg ps modelName requested = (''/chat/completions'', True))
   \<and> (requested \<notin> set (SupportedEndpoints info)
        \<and> \<not> (requested = ''/chat/completions'' \<and> ''/responses'' \<in> set (SupportedEndpoints info))
        \<and> \<not> (requested = ''/responses'' \<and> ''/chat/completions'' \<in> set (SupportedEndpoints info)) \<longrightarrow>
        resolveEndpointOverride reg ps modelName requested = ([], False))"
  using assms
  by (auto simp: resolveEndpointOverride_resolved openAIChatEndpoint_def
        openAIResponsesEndpoint_def)

theorem C6_two_way_mapping_witness:
  "resolvedModelInfo testRegistry ParseSuffix ''test-gemini-chat-only'' =
     Some \<lparr>ID = ''test-gemini-chat-only'', SupportedEndpoints = [''/chat/completions'']\<rparr>
   \<and> resolvedModelInfo responsesOnlyRegistry ParseSuffix ''responses-only'' =
     Some \<lparr>ID = ''responses-only'', SupportedEndpoints = [''/responses'']\<rparr>
   \<and> resolveEndpointOverride testRegistry ParseSuffix ''test-gemini-chat-only''
        ''/chat/completions'' = ([], False)
   \<and> resolveEndpointOverride responsesOnlyRegistry ParseSuffix ''responses-only''
        ''/chat/completions'' = (''/responses'', True)
   \<and> resolveEndpointOverride testRegistry ParseSuffix ''test-gemini-chat-only''
        ''/responses'' = (''/chat/completions'', True)
   \<and> resolveEndpointOverride testRegistry ParseSuffix ''test-gemini-chat-only''
        ''/completions'' = ([], False)"
proof -
  have ne1: "''test-gemini-chat-only'' \<noteq> []" and ne2: "''responses-only'' \<noteq> []"
    by simp_all
  note a = C6_two_way_mapping [OF ne1 testRegistry_resolved]
  note b = C6_two_way_mapping [OF ne2 responsesOnlyRegistry_resolved]
  have "resolveEndpointOverride testRegistry ParseSuffix ''test-gemini-chat-only''
        ''/chat/completions'' = ([], False)"
    using a [of "''/chat/completions''"] by simp
  moreover have "resolveEndpointOverride responsesOnlyRegistry ParseSuffix ''responses-only''
        ''/chat/completions'' = (''/responses'', True)"
    using b [of "''/chat/completions''"] by simp
  moreover have "resolveEndpointOverride testRegistry ParseSuffix ''test-gemini-chat-only''
        ''/responses'' = (''/chat/completions'', True)"
    using a [of "''/responses''"] by simp
  moreover have "resolveEndpointOverride testRegistry ParseSuffix ''test-gemini-chat-only''
        ''/completions'' = ([], False)"
    using a [of "''/completions''"] by simp
  ultimately show ?thesis
    using testRegistry_resolved responsesOnlyRegistry_resolved by simp
qed

text \<open>
  Claim C7. An empty model name gets no override. When the exact identifier is not
  in the registry, the resolver takes the base identifier the suffix parser returns
  and, if that is a different non-empty identifier, looks it up once: a suffixed
  identifier whose base is registered resolves to the base identifier's descriptor
  and gets exactly the answer the base identifier gets. The retry is not repeated: if the base identifier is not registered either,
  there is no override, whatever a second stripping would find.
\<close>

theorem C7_suffix_retry_once:
  "resolveEndpointOverride reg ps [] e = ([], False)
   \<and> (m \<noteq> [] \<and> reg m [] = None \<and> ModelName (ps m) \<noteq> [] \<and> ModelName (ps m) \<noteq> m
        \<and> reg (ModelName (ps m)) [] \<noteq> None \<longrightarrow>
        resolvedModelInfo reg ps m = reg (ModelName (ps m)) []
        \<and> resolveEndpointOverride reg ps m e
            = resolveEndpointOverride reg ps (ModelName (ps m)) e)
   \<and> (reg m [] = None \<and> reg (ModelName (ps m)) [] = None \<longrightarrow>
        resolveEndpointOverride reg ps m e = ([], False))"
proof (intro conjI impI)
  show "resolveEndpointOverride reg ps [] e = ([], False)"
    by (simp add: resolveEndpointOverride_def)
next
  assume h: "m \<noteq> [] \<and> reg m [] = None \<and> ModelName (ps m) \<noteq> [] \<and> ModelName (ps m) \<noteq> m
        \<and> reg (ModelName (ps m)) [] \<noteq> None"
  then obtain i where i: "reg (ModelName (ps m)) [] = Some i" by auto
  from h i have "resolvedModelInfo reg ps m = Some i"
    by (simp add: resolvedModelInfo_def)
  moreover from i have "resolvedModelInfo reg ps (ModelName (ps m)) = Some i"
    by (simp add: resolvedModelInfo_def)
  ultimately show "resolveEndpointOverride reg ps m e =
      resolveEndpointOverride reg ps (ModelName (ps m)) e"
    using h by (simp add: resolveEndpointOverride_resolved)
next
  assume h: "m \<noteq> [] \<and> reg m [] = None \<and> ModelName (ps m) \<noteq> [] \<and> ModelName (ps m) \<noteq> m
        \<and> reg (ModelName (ps m)) [] \<noteq> None"
  then show "resolvedModelInfo reg ps m = reg (ModelName (ps m)) []"
    by (simp add: resolvedModelInfo_def)
next
  assume "reg m [] = None \<and> reg (ModelName (ps m)) [] = None"
  then have "resolvedModelInfo reg ps m = None"
    by (simp add: resolvedModelInfo_def Let_def)
  then show "resolveEndpointOverride reg ps m e = ([], False)"
    by (simp add: resolveEndpointOverride_resolved)
qed

theorem C7_suffix_retry_once_witness:
  "testRegistry ''test-gemini-chat-only(high)'' [] = None
   \<and> ModelName (ParseSuffix ''test-gemini-chat-only(high)'') = ''test-gemini-chat-only''
   \<and> testRegistry ''test-gemini-chat-only'' [] \<noteq> None
   \<and> resolveEndpointOverride testRegistry ParseSuffix ''test-gemini-chat-only(high)''
        ''/responses'' = (''/chat/completions'', True)
   \<and> testRegistry ''test-gemini-chat-only(high)(low)'' [] = None
   \<and> testRegistry (ModelName (ParseSuffix ''test-gemini-chat-only(high)(low)'')) [] = None
   \<and> resolveEndpointOverride testRegistry ParseSuffix ''test-gemini-chat-only(high)(low)''
        ''/responses'' = ([], False)"
proof -
  have a: "testRegistry ''test-gemini-chat-only(high)'' [] = None"
    and b: "testRegistry ''test-gemini-chat-only'' [] \<noteq> None"
    and c: "testRegistry ''test-gemini-chat-only(high)(low)'' [] = None"
    and d: "testRegistry (ModelName (ParseSuffix ''test-gemini-chat-only(high)(low)'')) [] = None"
    by (simp_all add: testRegistry_def ParseSuffix_high_low)
  have "resolveEndpointOverride testRegistry ParseSuffix ''test-gemini-chat-only(high)''
        ''/responses'' = (''/chat/completions'', True)"
    using C7_suffix_retry_once [of testRegistry ParseSuffix "''/responses''"
        "''test-gemini-chat-only(high)''"] a b
    by (simp add: ParseSuffix_high resolve_test_base)
  moreover have "resolveEndpointOverride testRegistry ParseSuffix
        ''test-gemini-chat-only(high)(low)'' ''/responses'' = ([], False)"
    using C7_suffix_retry_once [of testRegistry ParseSuffix "''/responses''"
        "''test-gemini-chat-only(high)(low)''"] c d
    by simp
  ultimately show ?thesis
    using a b c d by (simp add: ParseSuffix_high)
qed

text \<open>
  Claim C10. Whatever the model name and the requested endpoint, the resolver returns
  either the empty string with \<open>applies = false\<close>, or \<open>applies = true\<close> with one of
  the two endpoint constants, which then differs from the requested endpoint and is an
  element of the resolved descriptor's list of supported endpoints. A non-empty
  override never comes with \<open>applies = false\<close>.
\<close>

theorem C10_override_invariant:
  assumes "resolveEndpointOverride reg ps m e = (ov, ap)"
  shows "((ov = [] \<and> \<not> ap)
          \<or> (ap \<and> (ov = ''/chat/completions'' \<or> ov = ''/responses'') \<and> ov \<noteq> e
              \<and> (\<exists>i. resolvedModelInfo reg ps m = Some i \<and> ov \<in> set (SupportedEndpoints i))))
         \<and> (\<not> ap \<longrightarrow> ov = [])"
  using assms
  by (auto simp: resolveEndpointOverride_resolved openAIChatEndpoint_def
        openAIResponsesEndpoint_def split: if_splits option.splits)

theorem C10_override_invariant_witness:
  "resolveEndpointOverride testRegistry ParseSuffix ''test-gemini-chat-only(high)''
      ''/responses'' = (''/chat/completions'', True)
   \<and> ''/chat/completions'' \<noteq> ''/responses''
   \<and> (\<exists>i. resolvedModelInfo testRegistry ParseSuffix ''test-gemini-chat-only(high)'' = Some i
          \<and> ''/chat/completions'' \<in> set (SupportedEndpoints i))"
proof -
  have r: "resolveEndpointOverride testRegistry ParseSuffix ''test-gemini-chat-only(high)''
      ''/responses'' = (''/chat/completions'', True)"
    by (simp add: resolveEndpointOverride_resolved testRegistry_resolved_suffixed
        openAIChatEndpoint_def openAIResponsesEndpoint_def)
  from C10_override_invariant [OF r] r show ?thesis by simp
qed

section \<open>Properties of the response normalizer\<close>

lemma ReadFull_restore:
  assumes "ReadFull r 2 = (n, header, err, body1)"
  shows "MultiReader (bytesReader (take n header)) body1 = r"
proof -
  from assms have n: "n = min 2 (length (unread r))"
    and h: "header = take n (unread r) @ replicate (2 - n) 0"
    and b: "body1 = ReadCloser (drop n (unread r)) (broken r)"
    by (auto simp: ReadFull_def Let_def)
  from n have "take n header = take n (unread r)"
    by (simp add: h)
  then show ?thesis
    by (simp add: b MultiReader_def bytesReader_def)
qed

lemma ReadFull_magic:
  assumes "ReadFull r 2 = (n, header, err, body1)"
  shows "(n \<ge> 2 \<and> header ! 0 = 0x1f \<and> header ! 1 = 0x8b) \<longleftrightarrow> take 2 (unread r) = gzipMagic"
proof -
  from assms have n: "n = min 2 (length (unread r))"
    and h: "header = take n (unread r) @ replicate (2 - n) 0"
    by (auto simp: ReadFull_def Let_def)
  show ?thesis
  proof (cases "length (unread r) \<ge> 2")
    case True
    then obtain a b rest where u: "unread r = a # b # rest"
      by (metis Suc_le_length_iff numeral_2_eq_2)
    with n h show ?thesis by (simp add: gzipMagic_def)
  next
    case False
    then have "length (take 2 (unread r)) < 2" by simp
    then have "take 2 (unread r) \<noteq> gzipMagic"
      by (auto simp: gzipMagic_def)
    with False n show ?thesis by simp
  qed
qed

lemma ReadFull_header_take:
  assumes "ReadFull r 2 = (n, header, err, body1)" and "take 2 (unread r) = gzipMagic"
  shows "n = 2 \<and> take n header = gzipMagic \<and> body1 = ReadCloser (drop 2 (unread r)) (broken r) \<and> err = None"
proof -
  from assms(2) have "length (take 2 (unread r)) = 2" by (simp add: gzipMagic_def)
  then have l: "length (unread r) \<ge> 2" by simp
  with assms show ?thesis
    by (auto simp: ReadFull_def Let_def min_def gzipMagic_def)
qed

text \<open>
  Claim C8. For a 2xx response without a \<open>Content-Encoding\<close> value that is not
  classified as streaming, whose body is empty, a single byte (a lone \<open>0x1F\<close>
  included) or does not start with the two bytes \<open>0x1F 0x8B\<close>, the normalizer puts
  back the peeked bytes in front of the rest: it returns no error and the response it
  was given, so a later read sees the original bytes (and the original end of the
  stream). Both listings do so, the second for every case table.
\<close>

theorem C8_non_gzip_body_restored:
  assumes "200 \<le> StatusCode resp" and "StatusCode resp < 300"
    and "Header_Get (Header resp) ''Content-Encoding'' = []"
    and "\<not> isStreamingResponse resp"
    and "length (unread (Body resp)) < 2
         \<or> unread (Body resp) ! 0 \<noteq> 0x1f \<or> unread (Body resp) ! 1 \<noteq> 0x8b"
  shows "ModifyResponse gunzip resp = (None, resp)
         \<and> ModifyResponse_second lowerCase gunzip resp = (None, resp)"
proof -
  obtain n header err body1 where rf: "ReadFull (Body resp) 2 = (n, header, err, body1)"
    by (metis prod_cases4)
  have nm: "take 2 (unread (Body resp)) \<noteq> gzipMagic"
  proof
    assume m: "take 2 (unread (Body resp)) = gzipMagic"
    then have "length (take 2 (unread (Body resp))) = 2" by (simp add: gzipMagic_def)
    then have "length (unread (Body resp)) \<ge> 2" by simp
    then obtain a b rest where u: "unread (Body resp) = a # b # rest"
      by (metis Suc_le_length_iff numeral_2_eq_2)
    with m assms(5) show False by (simp add: gzipMagic_def)
  qed
  with ReadFull_magic [OF rf] have ng: "\<not> (n \<ge> 2 \<and> header ! 0 = 0x1f \<and> header ! 1 = 0x8b)"
    by simp
  note rs = ReadFull_restore [OF rf]
  have "ModifyResponse gunzip resp = (None, resp)"
    using assms(1-4) rf ng rs by (auto simp: ModifyResponse_def)
  moreover have "ModifyResponse_second lowerCase gunzip resp = (None, resp)"
    using rf ng rs by (auto simp: ModifyResponse_second_def Let_def)
  ultimately show ?thesis by simp
qed


lemma ModifyResponse_gzip_branch:
  assumes "200 \<le> StatusCode resp" and "StatusCode resp < 300"
    and "Header_Get (Header resp) ''Content-Encoding'' = []"
    and "\<not> isStreamingResponse resp"
    and "Body resp = bytesReader data"
    and "take 2 data = gzipMagic"
  shows "ModifyResponse gunzip resp =
     (case gunzip data of
        NewReaderError \<Rightarrow> (None, resp\<lparr>Body := bytesReader data\<rparr>)
      | DecompressError \<Rightarrow> (None, resp\<lparr>Body := bytesReader data\<rparr>)
      | Decompressed decompressed \<Rightarrow>
          (None,
           resp\<lparr>Body := bytesReader decompressed,
                ContentLength := int (length decompressed),
                Header :=
                  Header_Set
                    (Header_Del (Header_Del (Header resp) ''Content-Encoding'') ''Content-Length'')
                    ''Content-Length'' (FormatInt (int (length decompressed)))\<rparr>))"
proof -
  obtain n header err body1 where rf: "ReadFull (Body resp) 2 = (n, header, err, body1)"
    by (metis prod_cases4)
  from assms(5,6) have m: "take 2 (unread (Body resp)) = gzipMagic"
    by (simp add: bytesReader_def)
  from ReadFull_header_take [OF rf m] assms(5)
  have n: "n = 2" and th: "take n header = gzipMagic"
    and b1: "body1 = ReadCloser (drop 2 data) False"
    by (auto simp: bytesReader_def)
  from ReadFull_magic [OF rf] m have mg: "n \<ge> 2 \<and> header ! 0 = 0x1f \<and> header ! 1 = 0x8b"
    by simp
  have ra: "ReadAll body1 = (drop 2 data, None, ReadCloser [] False)"
    by (simp add: b1 ReadAll_def)
  have st: "(StatusCode resp < 200 \<or> StatusCode resp \<ge> 300) = False"
    using assms(1,2) by auto
  have d: "take n header @ drop 2 data = data"
    using th assms(6) by (metis append_take_drop_id)
  have "ModifyResponse gunzip resp =
      (let gzippedData = take n header @ drop 2 data in
       case gunzip gzippedData of
         NewReaderError \<Rightarrow> (None, resp\<lparr>Body := bytesReader gzippedData\<rparr>)
       | DecompressError \<Rightarrow> (None, resp\<lparr>Body := bytesReader gzippedData\<rparr>)
       | Decompressed decompressed \<Rightarrow>
           (None,
            resp\<lparr>Body := bytesReader decompressed,
                 ContentLength := int (length decompressed),
                 Header :=
                   Header_Set
                     (Header_Del (Header_Del (Header resp) ''Content-Encoding'')
                        ''Content-Length'')
                     ''Content-Length'' (FormatInt (int (length decompressed)))\<rparr>))"
    unfolding ModifyResponse_def using assms(3,4) mg
    by (simp only: st rf ra prod.case if_True if_False simp_thms option.simps)
  then show ?thesis by (simp only: d Let_def)
qed

text \<open>
  The first listing on a body that starts with the magic bytes and fails to
  decompress (in \<^verbatim>\<open>gzip.NewReader\<close> or while the stream is read): it returns no
  error and the response it was given, the same body bytes and the same headers.
\<close>

lemma ModifyResponse_failed_decompression_keeps_body:
  assumes "200 \<le> StatusCode resp" and "StatusCode resp < 300"
    and "Header_Get (Header resp) ''Content-Encoding'' = []"
    and "\<not> isStreamingResponse resp"
    and "Body resp = bytesReader data"
    and "take 2 data = gzipMagic"
    and "gunzip data = NewReaderError \<or> gunzip data = DecompressError"
  shows "ModifyResponse gunzip resp = (None, resp)"
proof -
  from assms(5) have "resp\<lparr>Body := bytesReader data\<rparr> = resp"
    by (metis Response.surjective Response.update_convs(3))
  with assms(7) ModifyResponse_gzip_branch [OF assms(1-6), of gunzip] show ?thesis
    by auto
qed

text \<open>
  The first listing on a body that is a gzip stream (it starts with the magic bytes
  and decompresses to \<open>P\<close>): it returns no error and a response whose body is exactly
  \<open>P\<close>, whose content length is the length of \<open>P\<close> (in the field and in the
  \<open>Content-Length\<close> header), and which has no \<open>Content-Encoding\<close> header.
\<close>

lemma ModifyResponse_gzip_round_trip:
  assumes "200 \<le> StatusCode resp" and "StatusCode resp < 300"
    and "Header_Get (Header resp) ''Content-Encoding'' = []"
    and "\<not> isStreamingResponse resp"
    and "Body resp = bytesReader data"
    and "take 2 data = gzipMagic"
    and "gunzip data = Decompressed P"
  shows "fst (ModifyResponse gunzip resp) = None
     \<and> Body (snd (ModifyResponse gunzip resp)) = bytesReader P
     \<and> ContentLength (snd (ModifyResponse gunzip resp)) = int (length P)
     \<and> Header (snd (ModifyResponse gunzip resp)) ''Content-Encoding'' = None
     \<and> Header_Get (Header (snd (ModifyResponse gunzip resp))) ''Content-Encoding'' = []
     \<and> Header_Get (Header (snd (ModifyResponse gunzip resp))) ''Content-Length''
         = FormatInt (int (length P))
     \<and> StatusCode (snd (ModifyResponse gunzip resp)) = StatusCode resp"
  using assms(7) ModifyResponse_gzip_branch [OF assms(1-6), of gunzip]
  by (simp add: Header_Get_def Header_Set_def Header_Del_def)

lemma mkResp_simps:
  "StatusCode (mkResp st h b) = st" "Header (mkResp st h b) = h"
  "Body (mkResp st h b) = bytesReader b" "ContentLength (mkResp st h b) = int (length b)"
  by (simp_all add: mkResp_def)

lemma ToLower_empty: "ToLower lowerCase [] = []"
  by (simp add: ToLower_def isASCII_def lowerASCII_def)

lemma no_headers_not_streaming:
  "Header_Get Map.empty k = []"
  "\<not> isStreamingResponse (mkResp st Map.empty b)"
  "\<not> isStreamingResponse_second lowerCase (mkResp st Map.empty b)"
  by (simp_all add: Header_Get_def isStreamingResponse_def isStreamingResponse_second_def
      mkResp_def ToLower_empty)

theorem C8_non_gzip_body_restored_witness:
  "length (unread (Body (mkResp 200 Map.empty [0x1f]))) < 2
   \<and> ModifyResponse gunzipOfTests (mkResp 200 Map.empty [0x1f])
        = (None, mkResp 200 Map.empty [0x1f])
   \<and> ModifyResponse_second lowerCaseOfTests gunzipOfTests (mkResp 200 Map.empty [0x1f])
        = (None, mkResp 200 Map.empty [0x1f])
   \<and> unread (Body (mkResp 200 Map.empty plain)) ! 0 \<noteq> 0x1f
   \<and> ModifyResponse gunzipOfTests (mkResp 200 Map.empty plain)
        = (None, mkResp 200 Map.empty plain)
   \<and> ModifyResponse_second lowerCaseOfTests gunzipOfTests (mkResp 200 Map.empty plain)
        = (None, mkResp 200 Map.empty plain)"
proof -
  have a: "length (unread (Body (mkResp 200 Map.empty [0x1f]))) < 2"
    by (simp add: mkResp_simps bytesReader_def)
  have b: "unread (Body (mkResp 200 Map.empty plain)) ! 0 \<noteq> 0x1f"
    by (simp add: mkResp_simps bytesReader_def plain_def)
  have s: "(200::int) \<le> StatusCode (mkResp 200 Map.empty x)"
      "StatusCode (mkResp 200 Map.empty x) < 300"
      "Header_Get (Header (mkResp 200 Map.empty x)) ''Content-Encoding'' = []" for x
    by (simp_all add: mkResp_simps no_headers_not_streaming)
  from a have a': "length (unread (Body (mkResp 200 Map.empty [0x1f]))) < 2
      \<or> unread (Body (mkResp 200 Map.empty [0x1f])) ! 0 \<noteq> 0x1f
      \<or> unread (Body (mkResp 200 Map.empty [0x1f])) ! 1 \<noteq> 0x8b" by simp
  from b have b': "length (unread (Body (mkResp 200 Map.empty plain))) < 2
      \<or> unread (Body (mkResp 200 Map.empty plain)) ! 0 \<noteq> 0x1f
      \<or> unread (Body (mkResp 200 Map.empty plain)) ! 1 \<noteq> 0x8b" by simp
  from C8_non_gzip_body_restored [OF s [of "[0x1f]"] no_headers_not_streaming(2) a',
      of gunzipOfTests lowerCaseOfTests]
    C8_non_gzip_body_restored [OF s [of plain] no_headers_not_streaming(2) b',
      of gunzipOfTests lowerCaseOfTests]
    a b
  show ?thesis by simp
qed

lemma gunzipOfTests_simps:
  "gunzipOfTests good = Decompressed goodJSON"
  "gunzipOfTests truncated = DecompressError"
  "gunzipOfTests corrupted = NewReaderError"
  by (simp_all add: gunzipOfTests_def good_def truncated_def corrupted_def)

lemma gunzipOfTests_doubled:
  "gunzipOfTests (good @ drop 2 good) = DecompressError"
  "gunzipOfTests (truncated @ drop 2 truncated) = DecompressError"
  "gunzipOfTests (corrupted @ drop 2 corrupted) = NewReaderError"
  by (simp_all add: gunzipOfTests_def good_def truncated_def corrupted_def)

lemma test_bytes_magic:
  "take 2 good = gzipMagic" "take 2 truncated = gzipMagic" "take 2 corrupted = gzipMagic"
  by (simp_all add: good_def truncated_def corrupted_def gzipMagic_def)

lemma test_bytes_doubled:
  "length (good @ drop 2 good) = 60" "good @ drop 2 good \<noteq> goodJSON"
  "length truncated = 10" "length (truncated @ drop 2 truncated) = 18"
  "length corrupted = 9" "length (corrupted @ drop 2 corrupted) = 16"
  by (simp_all add: good_def goodJSON_def truncated_def corrupted_def)

lemma FormatInt_11: "FormatInt 11 = ''11''"
  by (simp add: FormatInt_def FormatUint.simps)

lemma test_response_simps:
  "(200::int) \<le> StatusCode (mkResp 200 h x)" "StatusCode (mkResp 200 h x) < 300"
  "Body (mkResp 200 h x) = bytesReader x"
  "Header_Get (Header (mkResp 200 Map.empty x)) ''Content-Encoding'' = []"
  by (simp_all add: mkResp_simps no_headers_not_streaming)

text \<open>
  The first listing on the byte strings of the repository's test: the valid stream is
  replaced by its payload, the truncated and the corrupted one are put back as they
  came.
\<close>

lemma ModifyResponse_test_scenarios:
  "Body (snd (ModifyResponse gunzipOfTests (mkResp 200 Map.empty good))) = bytesReader goodJSON"
  "ContentLength (snd (ModifyResponse gunzipOfTests (mkResp 200 Map.empty good))) = 11"
  "Header_Get (Header (snd (ModifyResponse gunzipOfTests (mkResp 200 Map.empty good))))
     ''Content-Length'' = ''11''"
  "ModifyResponse gunzipOfTests (mkResp 200 Map.empty truncated)
     = (None, mkResp 200 Map.empty truncated)"
  "ModifyResponse gunzipOfTests (mkResp 200 Map.empty corrupted)
     = (None, mkResp 200 Map.empty corrupted)"
proof -
  have l: "int (length goodJSON) = 11" by (simp add: goodJSON_def)
  from ModifyResponse_gzip_round_trip [where gunzip = gunzipOfTests and data = good,
      OF test_response_simps(1,2,4) no_headers_not_streaming(2) test_response_simps(3)
        test_bytes_magic(1) gunzipOfTests_simps(1)]
  show "Body (snd (ModifyResponse gunzipOfTests (mkResp 200 Map.empty good))) = bytesReader goodJSON"
    "ContentLength (snd (ModifyResponse gunzipOfTests (mkResp 200 Map.empty good))) = 11"
    "Header_Get (Header (snd (ModifyResponse gunzipOfTests (mkResp 200 Map.empty good))))
       ''Content-Length'' = ''11''"
    by (simp_all add: l FormatInt_11)
  have t: "gunzipOfTests truncated = NewReaderError \<or> gunzipOfTests truncated = DecompressError"
    and c: "gunzipOfTests corrupted = NewReaderError \<or> gunzipOfTests corrupted = DecompressError"
    by (simp_all add: gunzipOfTests_simps)
  from ModifyResponse_failed_decompression_keeps_body [where gunzip = gunzipOfTests
      and data = truncated,
      OF test_response_simps(1,2,4) no_headers_not_streaming(2) test_response_simps(3)
        test_bytes_magic(2) t]
  show "ModifyResponse gunzipOfTests (mkResp 200 Map.empty truncated)
     = (None, mkResp 200 Map.empty truncated)" .
  from ModifyResponse_failed_decompression_keeps_body [where gunzip = gunzipOfTests
      and data = corrupted,
      OF test_response_simps(1,2,4) no_headers_not_streaming(2) test_response_simps(3)
        test_bytes_magic(3) c]
  show "ModifyResponse gunzipOfTests (mkResp 200 Map.empty corrupted)
     = (None, mkResp 200 Map.empty corrupted)" .
qed

text \<open>
  The second listing on a body that starts with the magic bytes: the decompressor is
  given the body followed by the body without its first two bytes, and that is also
  what is put back when decompression fails.
\<close>

lemma ModifyResponse_second_gzip_branch:
  assumes "200 \<le> StatusCode resp" and "StatusCode resp < 300"
    and "Header_Get (Header resp) ''Content-Encoding'' = []"
    and "\<not> isStreamingResponse_second lowerCase resp"
    and "Body resp = bytesReader data"
    and "take 2 data = gzipMagic"
  shows "ModifyResponse_second lowerCase gunzip resp =
     (case gunzip (data @ drop 2 data) of
        NewReaderError \<Rightarrow> (None, resp\<lparr>Body := bytesReader (data @ drop 2 data)\<rparr>)
      | DecompressError \<Rightarrow> (None, resp\<lparr>Body := bytesReader (data @ drop 2 data)\<rparr>)
      | Decompressed decompressed \<Rightarrow>
          (None,
           resp\<lparr>Body := bytesReader decompressed,
                ContentLength := int (length decompressed),
                Header := Header_Del (Header resp) ''Content-Encoding''\<rparr>))"
proof -
  obtain n header err body1 where rf: "ReadFull (Body resp) 2 = (n, header, err, body1)"
    by (metis prod_cases4)
  from assms(5,6) have m: "take 2 (unread (Body resp)) = gzipMagic"
    by (simp add: bytesReader_def)
  from ReadFull_header_take [OF rf m] assms(5)
  have n: "n = 2" and th: "take n header = gzipMagic"
    and b1: "body1 = ReadCloser (drop 2 data) False" and e: "err = None"
    by (auto simp: bytesReader_def)
  from ReadFull_magic [OF rf] m have mg: "n \<ge> 2 \<and> header ! 0 = 0x1f \<and> header ! 1 = 0x8b"
    by simp
  have ra: "ReadAll body1 = (drop 2 data, None, ReadCloser [] False)"
    by (simp add: b1 ReadAll_def)
  have st: "(StatusCode resp < 200 \<or> StatusCode resp \<ge> 300) = False"
    using assms(1,2) by auto
  have d: "take n header @ drop 2 data = data"
    using th assms(6) by (metis append_take_drop_id)
  have "ModifyResponse_second lowerCase gunzip resp =
      (let buf1 = take n header; buf2 = buf1 @ drop 2 data; gzippedData = buf2 @ drop 2 data in
       case gunzip gzippedData of
         NewReaderError \<Rightarrow> (None, resp\<lparr>Body := bytesReader gzippedData\<rparr>)
       | DecompressError \<Rightarrow> (None, resp\<lparr>Body := bytesReader gzippedData\<rparr>)
       | Decompressed decompressed \<Rightarrow>
           (None,
            resp\<lparr>Body := bytesReader decompressed,
                 ContentLength := int (length decompressed),
                 Header := Header_Del (Header resp) ''Content-Encoding''\<rparr>))"
    unfolding ModifyResponse_second_def using assms(3,4) mg
    by (simp only: st rf ra e prod.case if_True if_False simp_thms option.simps Let_def)
  then show ?thesis by (simp only: d Let_def)
qed

text \<open>
  Claim C2 says that a 2xx response that is not streaming and has no
  \<open>Content-Encoding\<close> header, with a gzip stream of a payload as its body, leaves the
  normalizer with the payload as its body. The second listing does not do that. On
  the response of the repository's test, status 200, no headers, the body a gzip
  stream of \<^verbatim>\<open>{"ok":true}\<close>, it hands the decompressor the 31 bytes of the body
  followed by the body without its first two bytes, for every decompressor and case
  table; the decompressor is never given the body itself. With a decompressor that
  inflates the body but reports an error for the 60 bytes, the response leaves with
  those 60 bytes as its body, where the first listing returns the payload.
\<close>

theorem C2_second_listing_doubles_gzip_body:
  "ModifyResponse_second lowerCase gunzip (mkResp 200 Map.empty good) =
     (case gunzip (good @ drop 2 good) of
        NewReaderError \<Rightarrow>
          (None, (mkResp 200 Map.empty good)\<lparr>Body := bytesReader (good @ drop 2 good)\<rparr>)
      | DecompressError \<Rightarrow>
          (None, (mkResp 200 Map.empty good)\<lparr>Body := bytesReader (good @ drop 2 good)\<rparr>)
      | Decompressed decompressed \<Rightarrow>
          (None,
           (mkResp 200 Map.empty good)
             \<lparr>Body := bytesReader decompressed,
              ContentLength := int (length decompressed),
              Header := Header_Del Map.empty ''Content-Encoding''\<rparr>))
   \<and> gunzipOfTests good = Decompressed goodJSON
   \<and> gunzipOfTests (good @ drop 2 good) = DecompressError
   \<and> unread (Body (snd (ModifyResponse_second lowerCase gunzipOfTests
         (mkResp 200 Map.empty good)))) = good @ drop 2 good
   \<and> length (good @ drop 2 good) = 60
   \<and> good @ drop 2 good \<noteq> goodJSON
   \<and> unread (Body (snd (ModifyResponse gunzipOfTests (mkResp 200 Map.empty good)))) = goodJSON"
proof -
  note b = ModifyResponse_second_gzip_branch [where data = good and lowerCase = lowerCase,
      OF test_response_simps(1,2,4) no_headers_not_streaming(3) test_response_simps(3)
        test_bytes_magic(1)]
  have g: "ModifyResponse_second lowerCase gunzip (mkResp 200 Map.empty good) =
     (case gunzip (good @ drop 2 good) of
        NewReaderError \<Rightarrow>
          (None, (mkResp 200 Map.empty good)\<lparr>Body := bytesReader (good @ drop 2 good)\<rparr>)
      | DecompressError \<Rightarrow>
          (None, (mkResp 200 Map.empty good)\<lparr>Body := bytesReader (good @ drop 2 good)\<rparr>)
      | Decompressed decompressed \<Rightarrow>
          (None,
           (mkResp 200 Map.empty good)
             \<lparr>Body := bytesReader decompressed,
              ContentLength := int (length decompressed),
              Header := Header_Del Map.empty ''Content-Encoding''\<rparr>))"
    by (simp only: b [of gunzip] mkResp_simps)
  have c: "unread (Body (snd (ModifyResponse_second lowerCase gunzipOfTests
         (mkResp 200 Map.empty good)))) = good @ drop 2 good"
    by (simp add: b [of gunzipOfTests] gunzipOfTests_doubled bytesReader_def)
  have f: "unread (Body (snd (ModifyResponse gunzipOfTests (mkResp 200 Map.empty good))))
      = goodJSON"
    by (simp add: ModifyResponse_test_scenarios(1) bytesReader_def)
  from g c f show ?thesis
    by (simp only: gunzipOfTests_simps gunzipOfTests_doubled test_bytes_doubled simp_thms)
qed

text \<open>
  Claim C4 says that a 2xx response that is not streaming and has no
  \<open>Content-Encoding\<close> header, whose body starts with the magic bytes and fails to
  decompress, leaves the normalizer with its original body bytes. The second listing
  does not do that. On the truncated body of the repository's test (the ten header
  bytes of a gzip stream) it hands the decompressor those ten bytes followed by the
  last eight of them, for every decompressor and case table, and puts the same
  eighteen bytes back when decompression fails; on the corrupted body (the magic
  bytes and the text \<^verbatim>\<open>notgzip\<close>, nine bytes) it puts back sixteen bytes. The first
  listing returns both responses as they came.
\<close>

theorem C4_second_listing_doubles_failed_body:
  "ModifyResponse_second lowerCase gunzip (mkResp 200 Map.empty truncated) =
     (case gunzip (truncated @ drop 2 truncated) of
        NewReaderError \<Rightarrow>
          (None,
           (mkResp 200 Map.empty truncated)
             \<lparr>Body := bytesReader (truncated @ drop 2 truncated)\<rparr>)
      | DecompressError \<Rightarrow>
          (None,
           (mkResp 200 Map.empty truncated)
             \<lparr>Body := bytesReader (truncated @ drop 2 truncated)\<rparr>)
      | Decompressed decompressed \<Rightarrow>
          (None,
           (mkResp 200 Map.empty truncated)
             \<lparr>Body := bytesReader decompressed,
              ContentLength := int (length decompressed),
              Header := Header_Del Map.empty ''Content-Encoding''\<rparr>))
   \<and> gunzipOfTests truncated = DecompressError
   \<and> gunzipOfTests (truncated @ drop 2 truncated) = DecompressError
   \<and> unread (Body (snd (ModifyResponse_second lowerCase gunzipOfTests
         (mkResp 200 Map.empty truncated)))) = truncated @ drop 2 truncated
   \<and> length truncated = 10
   \<and> length (truncated @ drop 2 truncated) = 18
   \<and> gunzipOfTests corrupted = NewReaderError
   \<and> gunzipOfTests (corrupted @ drop 2 corrupted) = NewReaderError
   \<and> unread (Body (snd (ModifyResponse_second lowerCase gunzipOfTests
         (mkResp 200 Map.empty corrupted)))) = corrupted @ drop 2 corrupted
   \<and> length corrupted = 9
   \<and> length (corrupted @ drop 2 corrupted) = 16
   \<and> ModifyResponse gunzipOfTests (mkResp 200 Map.empty truncated)
        = (None, mkResp 200 Map.empty truncated)
   \<and> ModifyResponse gunzipOfTests (mkResp 200 Map.empty corrupted)
        = (None, mkResp 200 Map.empty corrupted)"
proof -
  note t = ModifyResponse_second_gzip_branch [where data = truncated and lowerCase = lowerCase,
      OF test_response_simps(1,2,4) no_headers_not_streaming(3) test_response_simps(3)
        test_bytes_magic(2)]
  note k = ModifyResponse_second_gzip_branch [where data = corrupted and lowerCase = lowerCase,
      OF test_response_simps(1,2,4) no_headers_not_streaming(3) test_response_simps(3)
        test_bytes_magic(3)]
  have g: "ModifyResponse_second lowerCase gunzip (mkResp 200 Map.empty truncated) =
     (case gunzip (truncated @ drop 2 truncated) of
        NewReaderError \<Rightarrow>
          (None,
           (mkResp 200 Map.empty truncated)
             \<lparr>Body := bytesReader (truncated @ drop 2 truncated)\<rparr>)
      | DecompressError \<Rightarrow>
          (None,
           (mkResp 200 Map.empty truncated)
             \<lparr>Body := bytesReader (truncated @ drop 2 truncated)\<rparr>)
      | Decompressed decompressed \<Rightarrow>
          (None,
           (mkResp 200 Map.empty truncated)
             \<lparr>Body := bytesReader decompressed,
              ContentLength := int (length decompressed),
              Header := Header_Del Map.empty ''Content-Encoding''\<rparr>))"
    by (simp only: t [of gunzip] mkResp_simps)
  have c: "unread (Body (snd (ModifyResponse_second lowerCase gunzipOfTests
         (mkResp 200 Map.empty truncated)))) = truncated @ drop 2 truncated"
    by (simp add: t [of gunzipOfTests] gunzipOfTests_doubled bytesReader_def)
  have e: "unread (Body (snd (ModifyResponse_second lowerCase gunzipOfTests
         (mkResp 200 Map.empty corrupted)))) = corrupted @ drop 2 corrupted"
    by (simp add: k [of gunzipOfTests] gunzipOfTests_doubled bytesReader_def)
  from g c e show ?thesis
    by (simp only: gunzipOfTests_simps gunzipOfTests_doubled test_bytes_doubled
        ModifyResponse_test_scenarios simp_thms)
qed

text \<open>
  What both listings do for a streaming response. A response whose \<open>Content-Type\<close>
  value (the first one, as \<^verbatim>\<open>Header.Get\<close> returns it) contains the bytes
  \<open>text/event-stream\<close> as written is returned as it came, with no error, for every
  decompressor and every body: nothing is read from it. In the second listing the same
  holds for a response whose \<open>Transfer-Encoding\<close> value contains \<open>chunked\<close> after
  \<^verbatim>\<open>strings.ToLower\<close>.
\<close>

lemma streaming_passthrough:
  "(Contains (Header_Get (Header resp) ''Content-Type'') ''text/event-stream'' \<longrightarrow>
       isStreamingResponse resp \<and> ModifyResponse gunzip resp = (None, resp)
     \<and> isStreamingResponse_second lowerCase resp
     \<and> ModifyResponse_second lowerCase gunzip resp = (None, resp))
   \<and> (Contains (ToLower lowerCase (Header_Get (Header resp) ''Transfer-Encoding'')) ''chunked''
        \<longrightarrow>
       isStreamingResponse_second lowerCase resp
     \<and> ModifyResponse_second lowerCase gunzip resp = (None, resp))"
  by (simp add: isStreamingResponse_def isStreamingResponse_second_def ModifyResponse_def
      ModifyResponse_second_def)

lemma streaming_header_values:
  "Header_Get sseHeader ''Content-Type'' = ''text/event-stream''"
  "Header_Get chunkedHeader ''Transfer-Encoding'' = ''chunked''"
  "Header_Get chunkedHeader ''Content-Type'' = []"
  "Header_Get upperCaseSseHeader ''Content-Type'' = ''Text/Event-Stream''"
  "Header_Get upperCaseSseHeader ''Content-Encoding'' = []"
  "Header_Get chunkedHeader ''Content-Encoding'' = []"
  "Header_Get upperCaseSseHeader ''Transfer-Encoding'' = []"
  "Header_Get kelvinChunkedHeader ''Content-Type'' = []"
  "Header_Get kelvinChunkedHeader ''Transfer-Encoding''
     = ''chun'' @ [CHR 0xE2, CHR 0x84, CHR 0xAA] @ ''ed''"
  by (simp_all add: Header_Get_def sseHeader_def chunkedHeader_def upperCaseSseHeader_def
      kelvinChunkedHeader_def)

lemma ToLower_chunked: "ToLower lowerCase ''chunked'' = ''chunked''"
  by (simp add: ToLower_def isASCII_def lowerASCII_def toLowerByte_def byteOf_def)

lemma ToLower_upper_sse: "ToLower lowerCase ''Text/Event-Stream'' = ''text/event-stream''"
  by (simp add: ToLower_def isASCII_def lowerASCII_def toLowerByte_def byteOf_def)

lemma ToLower_kelvin:
  "ToLower lowerCaseOfTests (''chun'' @ [CHR 0xE2, CHR 0x84, CHR 0xAA] @ ''ed'') = ''chunked''"
  by (simp add: ToLower_def isASCII_def byteOf_def DecodeRuneInString_def unicode_ToLower_def
      lowerCaseOfTests_def EncodeRune_def) code_simp

lemma not_Contains_upper_sse: "\<not> Contains ''Text/Event-Stream'' ''text/event-stream''"
  by simp

text \<open>
  The responses of \<^verbatim>\<open>TestModifyResponse_SkipsStreamingResponses\<close> that the listings
  pass through, and in the second listing a transfer encoding whose letter \<open>k\<close> is
  the Kelvin sign.
\<close>

lemma streaming_test_scenarios:
  "ModifyResponse gunzipOfTests (mkResp 200 sseHeader good) = (None, mkResp 200 sseHeader good)"
  "ModifyResponse_second lowerCase gunzipOfTests (mkResp 200 sseHeader good)
     = (None, mkResp 200 sseHeader good)"
  "ModifyResponse_second lowerCase gunzipOfTests (mkResp 200 chunkedHeader good)
     = (None, mkResp 200 chunkedHeader good)"
  "ModifyResponse_second lowerCaseOfTests gunzipOfTests (mkResp 200 kelvinChunkedHeader good)
     = (None, mkResp 200 kelvinChunkedHeader good)"
proof -
  have a: "Contains (Header_Get (Header (mkResp 200 sseHeader good)) ''Content-Type'')
      ''text/event-stream''"
    by (simp add: mkResp_simps streaming_header_values)
  have b: "Contains (ToLower lowerCase (Header_Get (Header (mkResp 200 chunkedHeader good))
      ''Transfer-Encoding'')) ''chunked''"
    by (simp add: mkResp_simps streaming_header_values ToLower_chunked)
  have c: "Contains (ToLower lowerCaseOfTests
      (Header_Get (Header (mkResp 200 kelvinChunkedHeader good)) ''Transfer-Encoding''))
      ''chunked''"
    by (simp only: mkResp_simps streaming_header_values ToLower_kelvin) simp
  from streaming_passthrough [of "mkResp 200 sseHeader good" gunzipOfTests lowerCase] a
  show "ModifyResponse gunzipOfTests (mkResp 200 sseHeader good) = (None, mkResp 200 sseHeader good)"
    "ModifyResponse_second lowerCase gunzipOfTests (mkResp 200 sseHeader good)
       = (None, mkResp 200 sseHeader good)"
    by blast+
  from streaming_passthrough [of "mkResp 200 chunkedHeader good" gunzipOfTests lowerCase] b
  show "ModifyResponse_second lowerCase gunzipOfTests (mkResp 200 chunkedHeader good)
     = (None, mkResp 200 chunkedHeader good)"
    by blast
  from streaming_passthrough [of "mkResp 200 kelvinChunkedHeader good" gunzipOfTests
      lowerCaseOfTests] c
  show "ModifyResponse_second lowerCaseOfTests gunzipOfTests (mkResp 200 kelvinChunkedHeader good)
     = (None, mkResp 200 kelvinChunkedHeader good)"
    by blast
qed

text \<open>
  Claim C1 says that a 2xx response whose \<open>Transfer-Encoding\<close> contains \<open>chunked\<close>,
  or whose \<open>Content-Type\<close> contains \<open>text/event-stream\<close>, letter case ignored, is
  classified as streaming and passed through untouched even when its body is valid
  gzip. The code does not do that in two places. On the response of the repository's
  test \<^verbatim>\<open>chunked transfer encoding\<close> (status 200, \<open>Transfer-Encoding: chunked\<close>, the
  body a gzip stream) the first listing does not classify the response as streaming
  and replaces the body by the decompressed payload; the second listing passes the
  same response through. With the content type \<open>Text/Event-Stream\<close>, which contains
  the marker once lower-cased, neither listing classifies the response as streaming,
  and the first replaces the body by the decompressed payload.
\<close>

theorem C1_chunked_response_decompressed:
  "Contains (ToLower lowerCase
       (Header_Get (Header (mkResp 200 chunkedHeader good)) ''Transfer-Encoding'')) ''chunked''
   \<and> \<not> isStreamingResponse (mkResp 200 chunkedHeader good)
   \<and> fst (ModifyResponse gunzipOfTests (mkResp 200 chunkedHeader good)) = None
   \<and> Body (snd (ModifyResponse gunzipOfTests (mkResp 200 chunkedHeader good)))
        = bytesReader goodJSON
   \<and> Body (mkResp 200 chunkedHeader good) = bytesReader good
   \<and> isStreamingResponse_second lowerCase (mkResp 200 chunkedHeader good)
   \<and> ModifyResponse_second lowerCase gunzipOfTests (mkResp 200 chunkedHeader good)
        = (None, mkResp 200 chunkedHeader good)
   \<and> Contains (ToLower lowerCase
       (Header_Get (Header (mkResp 200 upperCaseSseHeader good)) ''Content-Type''))
       ''text/event-stream''
   \<and> \<not> isStreamingResponse (mkResp 200 upperCaseSseHeader good)
   \<and> \<not> isStreamingResponse_second lowerCase (mkResp 200 upperCaseSseHeader good)
   \<and> Body (snd (ModifyResponse gunzipOfTests (mkResp 200 upperCaseSseHeader good)))
        = bytesReader goodJSON"
proof -
  have u: "\<not> isStreamingResponse (mkResp 200 upperCaseSseHeader good)"
    and u2: "\<not> isStreamingResponse_second lowerCase (mkResp 200 upperCaseSseHeader good)"
    and c: "\<not> isStreamingResponse (mkResp 200 chunkedHeader good)"
    and c2: "isStreamingResponse_second lowerCase (mkResp 200 chunkedHeader good)"
    by (simp_all add: isStreamingResponse_def isStreamingResponse_second_def mkResp_simps
        streaming_header_values ToLower_empty ToLower_chunked)
  have e: "Header_Get (Header (mkResp 200 upperCaseSseHeader good)) ''Content-Encoding'' = []"
      "Header_Get (Header (mkResp 200 chunkedHeader good)) ''Content-Encoding'' = []"
    by (simp_all add: mkResp_simps streaming_header_values)
  have x: "fst (ModifyResponse gunzipOfTests (mkResp 200 chunkedHeader good)) = None"
      "Body (snd (ModifyResponse gunzipOfTests (mkResp 200 chunkedHeader good)))
        = bytesReader goodJSON"
    by (simp_all add: ModifyResponse_gzip_branch [OF test_response_simps(1,2) e(2) c
          test_response_simps(3) test_bytes_magic(1)] gunzipOfTests_simps)
  have y: "Body (snd (ModifyResponse gunzipOfTests (mkResp 200 upperCaseSseHeader good)))
        = bytesReader goodJSON"
    by (simp add: ModifyResponse_gzip_branch [OF test_response_simps(1,2) e(1) u
          test_response_simps(3) test_bytes_magic(1)] gunzipOfTests_simps)
  have l: "Contains (ToLower lowerCase
       (Header_Get (Header (mkResp 200 chunkedHeader good)) ''Transfer-Encoding'')) ''chunked''"
    "Contains (ToLower lowerCase
       (Header_Get (Header (mkResp 200 upperCaseSseHeader good)) ''Content-Type''))
       ''text/event-stream''"
    by (simp_all add: mkResp_simps streaming_header_values ToLower_chunked ToLower_upper_sse)
  from u u2 c c2 x y l streaming_test_scenarios(3) [of lowerCase] show ?thesis
    by (simp only: mkResp_simps simp_thms)
qed
section \<open>Properties of proxy construction and of the director\<close>

text \<open>
  A scheme returned by \<^verbatim>\<open>getScheme\<close> is ASCII, so \<^verbatim>\<open>strings.ToLower\<close> lower-cases
  it byte by byte, whatever the case table.
\<close>

lemma isASCII_append: "isASCII (xs @ ys) \<longleftrightarrow> isASCII xs \<and> isASCII ys"
  by (simp add: isASCII_def)

lemma getSchemeLoop_isASCII:
  assumes "getSchemeLoop rawURL i cs = Inr (scheme0, rest)"
    and "cs = drop i rawURL" and "isASCII (take i rawURL)"
  shows "isASCII scheme0"
  using assms
proof (induction cs arbitrary: i)
  case Nil
  then show ?case by (simp add: isASCII_def)
next
  case (Cons c cs)
  from Cons.prems(2) have i: "i < length rawURL"
    by (metis drop_eq_Nil2 list.distinct(1) not_le)
  from Cons.prems(2) i have c: "rawURL ! i = c" and d: "cs = drop (Suc i) rawURL"
    by (metis Cons_nth_drop_Suc list.inject)+
  from i c have t: "take (Suc i) rawURL = take i rawURL @ [c]"
    by (simp add: take_Suc_conv_app_nth)
  show ?case
  proof (cases "isLowerASCII c \<or> isUpperASCII c \<or> isDigit c
      \<or> c = CHR ''+'' \<or> c = CHR ''-'' \<or> c = CHR ''.''")
    case True
    then have "byteOf c < 0x80"
      by (auto simp: isLowerASCII_def isUpperASCII_def isDigit_def byteOf_def)
    with Cons.prems(3) have a: "isASCII (take (Suc i) rawURL)"
      by (simp add: t isASCII_append) (simp add: isASCII_def)
    from True Cons.prems(1) have "(i = 0 \<and> scheme0 = []) \<or>
        getSchemeLoop rawURL (Suc i) cs = Inr (scheme0, rest)"
      by (auto split: if_splits)
    then show ?thesis
      using Cons.IH [OF _ d a] by (auto simp: isASCII_def)
  next
    case False
    with Cons.prems(1) have "scheme0 = [] \<or> scheme0 = take i rawURL"
      by (auto split: if_splits)
    with Cons.prems(3) show ?thesis by (auto simp: isASCII_def)
  qed
qed

lemma getScheme_ToLower:
  assumes "getScheme rawURL = Inr (scheme0, rest)"
  shows "ToLower lowerCase scheme0 = lowerASCII scheme0"
proof -
  from assms have "isASCII scheme0"
    using getSchemeLoop_isASCII [of rawURL 0 rawURL scheme0 rest]
    by (simp add: getScheme_def isASCII_def)
  then show ?thesis by (simp add: ToLower_def)
qed

lemma Parse_invalid:
  "Parse ''://invalid'' = Inl (URLError ''parse'' ''://invalid'' (ErrorString ''missing protocol scheme''))"
  by code_simp

lemma Parse_example_com:
  "Parse ''http://example.com'' = Inr (emptyURL\<lparr>Scheme := ''http'', Host := ''example.com''\<rparr>)"
  by code_simp

lemma Parse_no_scheme:
  "Parse ''example.com'' = Inr (emptyURL\<lparr>Path := ''example.com''\<rparr>)"
  by code_simp

lemma Parse_path_only:
  "Parse ''/api'' = Inr (emptyURL\<lparr>Path := ''/api''\<rparr>)"
  by code_simp

text \<open>
  Claim C3, as amended. \<^verbatim>\<open>createReverseProxy\<close> fails exactly when
  \<^verbatim>\<open>url.Parse\<close> rejects the address: it then returns the parser's error, wrapped,
  and no proxy instance; when the parser accepts the address it returns a proxy
  instance for the parsed URL and no error.
\<close>

theorem C3_construction_fails_iff_parse_fails:
  "(Parse upstreamURL = Inl err \<longrightarrow>
      createReverseProxy upstreamURL src = Inl (Wrapf ''invalid amp upstream url: '' err))
   \<and> (Parse upstreamURL = Inr parsed \<longrightarrow>
      createReverseProxy upstreamURL src = Inr \<lparr>Target = parsed, Secret = src\<rparr>)
   \<and> (isl (createReverseProxy upstreamURL src) \<longleftrightarrow> isl (Parse upstreamURL))"
  by (cases "Parse upstreamURL") (simp_all add: createReverseProxy_def)

theorem C3_construction_fails_iff_parse_fails_witness:
  "Parse ''://invalid''
     = Inl (URLError ''parse'' ''://invalid'' (ErrorString ''missing protocol scheme''))
   \<and> createReverseProxy ''://invalid'' (NewStaticSecretSource ''key'')
     = Inl (Wrapf ''invalid amp upstream url: ''
         (URLError ''parse'' ''://invalid'' (ErrorString ''missing protocol scheme'')))
   \<and> Parse ''http://example.com''
     = Inr (emptyURL\<lparr>Scheme := ''http'', Host := ''example.com''\<rparr>)
   \<and> createReverseProxy ''http://example.com'' (NewStaticSecretSource ''key'')
     = Inr \<lparr>Target = emptyURL\<lparr>Scheme := ''http'', Host := ''example.com''\<rparr>,
            Secret = NewStaticSecretSource ''key''\<rparr>"
  using C3_construction_fails_iff_parse_fails [of "''://invalid''" _ "NewStaticSecretSource ''key''"]
    C3_construction_fails_iff_parse_fails [of "''http://example.com''" _ "NewStaticSecretSource ''key''"]
    Parse_invalid Parse_example_com
  by simp

text \<open>
  Claim C3 as stated fails. \<^verbatim>\<open>url.Parse\<close> accepts relative references, so for
  the addresses \<open>example.com\<close> and \<open>/api\<close>, which hold no colon, hence no
  scheme, and are not absolute URLs, \<^verbatim>\<open>createReverseProxy\<close> returns a proxy
  instance and no error.
\<close>

theorem C3_relative_address_counterexample:
  "\<not> Contains ''example.com'' '':'' \<and> \<not> Contains ''/api'' '':''
   \<and> createReverseProxy ''example.com'' (NewStaticSecretSource ''key'')
     = Inr \<lparr>Target = emptyURL\<lparr>Path := ''example.com''\<rparr>, Secret = NewStaticSecretSource ''key''\<rparr>
   \<and> \<not> IsAbs (emptyURL\<lparr>Path := ''example.com''\<rparr>)
   \<and> createReverseProxy ''/api'' (NewStaticSecretSource ''key'')
     = Inr \<lparr>Target = emptyURL\<lparr>Path := ''/api''\<rparr>, Secret = NewStaticSecretSource ''key''\<rparr>
   \<and> \<not> IsAbs (emptyURL\<lparr>Path := ''/api''\<rparr>)"
  by (simp add: createReverseProxy_def Parse_no_scheme Parse_path_only IsAbs_def emptyURL_def)

text \<open>
  Claim C5. Let the secret source, called for the outgoing request, return the value
  \<open>k\<close> and the error \<open>err\<close>. If there is no error and \<open>k\<close> is not empty, the
  forwarded request carries \<open>X-Api-Key\<close> with the single value \<open>k\<close> and
  \<open>Authorization\<close> with the single value \<open>Bearer k\<close>. If \<open>k\<close> is empty or there
  is an error, the director sets no header: the headers are those the library's
  director left, so no empty-valued header is added. In every case the director
  returns the request, with its host set to the upstream's.
\<close>

theorem C5_credential_injection:
  assumes "Secret rp ((originalDirector req)\<lparr>ReqHost := Host (Target rp)\<rparr>) = (k, err)"
  shows "(err = None \<and> k \<noteq> [] \<longrightarrow>
            ReqHeader (Director originalDirector rp req) ''X-Api-Key'' = Some [k]
          \<and> ReqHeader (Director originalDirector rp req) ''Authorization''
              = Some [''Bearer '' @ k]
          \<and> Header_Get (ReqHeader (Director originalDirector rp req)) ''X-Api-Key'' = k
          \<and> Header_Get (ReqHeader (Director originalDirector rp req)) ''Authorization''
              = ''Bearer '' @ k)
       \<and> (k = [] \<or> err \<noteq> None \<longrightarrow>
            ReqHeader (Director originalDirector rp req) = ReqHeader (originalDirector req))
       \<and> ReqHost (Director originalDirector rp req) = Host (Target rp)"
  using assms by (auto simp: Director_def Let_def Header_Set_def Header_Get_def)

theorem C5_credential_injection_witness:
  "Header_Get (ReqHeader (Director identityDirector (testProxy (NewStaticSecretSource ''secret''))
       testRequest)) ''X-Api-Key'' = ''secret''
   \<and> Header_Get (ReqHeader (Director identityDirector (testProxy (NewStaticSecretSource ''secret''))
       testRequest)) ''Authorization'' = ''Bearer secret''
   \<and> ReqHeader (Director identityDirector (testProxy (NewStaticSecretSource [])) testRequest)
       = Map.empty
   \<and> ReqHeader (Director identityDirector (testProxy failingSecretSource) testRequest)
       = Map.empty
   \<and> ReqHost (Director identityDirector (testProxy failingSecretSource) testRequest)
       = ''example.com''"
proof -
  have a: "Secret (testProxy (NewStaticSecretSource v))
      ((identityDirector testRequest)\<lparr>ReqHost := Host (Target (testProxy (NewStaticSecretSource v)))\<rparr>)
      = (v, None)" for v
    by (simp add: testProxy_def NewStaticSecretSource_def)
  have b: "Secret (testProxy failingSecretSource)
      ((identityDirector testRequest)\<lparr>ReqHost := Host (Target (testProxy failingSecretSource))\<rparr>)
      = ([], Some (ErrorString ''open secrets.json: permission denied''))"
    by (simp add: testProxy_def failingSecretSource_def)
  from C5_credential_injection [where originalDirector = identityDirector and req = testRequest,
      OF a [of "''secret''"]]
    C5_credential_injection [where originalDirector = identityDirector and req = testRequest,
      OF a [of "[]"]]
    C5_credential_injection [where originalDirector = identityDirector and req = testRequest,
      OF b]
  show ?thesis
    by (simp add: identityDirector_def testRequest_def testProxy_def emptyURL_def)
qed

section \<open>Properties of module registration\<close>

text \<open>
  Claim C9. If the configured upstream address is empty after trimming white space
  (\<^verbatim>\<open>strings.TrimSpace\<close>, which trims the white space of Unicode),
  \<^verbatim>\<open>Register\<close> returns no error, marks the module as not enabled and leaves the
  engine's routes as they were. If the address is not empty and the proxy cannot be
  constructed, it returns that error (wrapped), registers no route, and leaves the
  \<^verbatim>\<open>enabled\<close> flag and the proxy field as they were, so a module that was not
  enabled stays not enabled. If the proxy is constructed, it returns no error, stores
  the proxy, sets \<^verbatim>\<open>enabled\<close> and appends the sixteen management routes and the
  thirteen provider alias routes to the engine.
\<close>

theorem C9_register:
  "(TrimSpace (AmpUpstreamURL cfg) = [] \<longrightarrow>
      Register nms m engine cfg = (None, m\<lparr>enabled := False\<rparr>, engine))
   \<and> (TrimSpace (AmpUpstreamURL cfg) \<noteq> []
      \<and> createReverseProxy (TrimSpace (AmpUpstreamURL cfg)) (nms (AmpUpstreamAPIKey cfg) 0) = Inl err
      \<longrightarrow>
      fst (Register nms m engine cfg) = Some (Wrapf ''failed to create amp proxy: '' err)
      \<and> snd (snd (Register nms m engine cfg)) = engine
      \<and> enabled (fst (snd (Register nms m engine cfg))) = enabled m
      \<and> proxy (fst (snd (Register nms m engine cfg))) = proxy m)
   \<and> (TrimSpace (AmpUpstreamURL cfg) \<noteq> []
      \<and> createReverseProxy (TrimSpace (AmpUpstreamURL cfg)) (nms (AmpUpstreamAPIKey cfg) 0) = Inr p
      \<longrightarrow>
      fst (Register nms m engine cfg) = None
      \<and> enabled (fst (snd (Register nms m engine cfg)))
      \<and> proxy (fst (snd (Register nms m engine cfg))) = Some p
      \<and> snd (snd (Register nms m engine cfg))
          = registerProviderAliases (fst (snd (Register nms m engine cfg)))
              (registerManagementRoutes engine (ProxyHandler p))
      \<and> length (snd (snd (Register nms m engine cfg))) = length engine + 16 + 13)"
  by (simp add: Register_def Let_def registerManagementRoutes_def registerProviderAliases_def)

text \<open>
  \<^verbatim>\<open>strings.TrimSpace\<close> on the addresses of the concrete instances; the last two
  consist of Unicode white space only: a no-break space U+00A0 (the bytes \<open>C2 A0\<close>),
  and a space followed by an ideographic space U+3000 (the bytes \<open>E3 80 80\<close>).
\<close>

lemma TrimSpace_examples:
  "TrimSpace ''  '' = []" "TrimSpace [] = []"
  "TrimSpace ''://invalid'' = ''://invalid''"
  "TrimSpace '' http://example.com '' = ''http://example.com''"
  by (simp_all add: asciiSpace_def byteOf_def)

lemma TrimSpace_unicode_examples:
  "TrimSpace [CHR 0xC2, CHR 0xA0] = []"
  "TrimSpace [CHR '' '', CHR 0xE3, CHR 0x80, CHR 0x80] = []"
  by (simp_all add: asciiSpace_def byteOf_def TrimFunc_def TrimRightFunc_def
      DecodeRuneInString_def IsSpace_def lastIndexFunc.simps)

theorem C9_register_witness:
  "TrimSpace (AmpUpstreamURL (cfgOf ''  '')) = []
   \<and> Register configOnlySecret (New None None) [] (cfgOf ''  '') = (None, New None None, [])
   \<and> TrimSpace (AmpUpstreamURL (cfgOf [CHR 0xC2, CHR 0xA0])) = []
   \<and> Register configOnlySecret (New None None) [] (cfgOf [CHR 0xC2, CHR 0xA0])
       = (None, New None None, [])
   \<and> TrimSpace (AmpUpstreamURL (cfgOf ''://invalid'')) \<noteq> []
   \<and> fst (Register configOnlySecret (New None None) [] (cfgOf ''://invalid''))
       = Some (Wrapf ''failed to create amp proxy: ''
           (Wrapf ''invalid amp upstream url: ''
             (URLError ''parse'' ''://invalid'' (ErrorString ''missing protocol scheme''))))
   \<and> snd (snd (Register configOnlySecret (New None None) [] (cfgOf ''://invalid''))) = []
   \<and> enabled (fst (snd (Register configOnlySecret (New None None) [] (cfgOf ''://invalid'')))) = False
   \<and> TrimSpace (AmpUpstreamURL (cfgOf '' http://example.com '')) \<noteq> []
   \<and> fst (Register configOnlySecret (New None None) [] (cfgOf '' http://example.com '')) = None
   \<and> enabled (fst (snd (Register configOnlySecret (New None None) [] (cfgOf '' http://example.com ''))))
   \<and> length (snd (snd (Register configOnlySecret (New None None) [] (cfgOf '' http://example.com ''))))
       = 29"
proof -
  have t: "TrimSpace (AmpUpstreamURL (cfgOf ''  '')) = []"
    "TrimSpace (AmpUpstreamURL (cfgOf [CHR 0xC2, CHR 0xA0])) = []"
    "TrimSpace (AmpUpstreamURL (cfgOf ''://invalid'')) = ''://invalid''"
    "TrimSpace (AmpUpstreamURL (cfgOf '' http://example.com '')) = ''http://example.com''"
    by (simp_all only: cfgOf_def Config.simps TrimSpace_examples TrimSpace_unicode_examples)
  have bad: "createReverseProxy (TrimSpace (AmpUpstreamURL (cfgOf ''://invalid'')))
      (configOnlySecret (AmpUpstreamAPIKey (cfgOf ''://invalid'')) 0)
      = Inl (Wrapf ''invalid amp upstream url: ''
             (URLError ''parse'' ''://invalid'' (ErrorString ''missing protocol scheme'')))"
    by (simp add: t createReverseProxy_def Parse_invalid)
  have ok: "createReverseProxy (TrimSpace (AmpUpstreamURL (cfgOf '' http://example.com '')))
      (configOnlySecret (AmpUpstreamAPIKey (cfgOf '' http://example.com '')) 0)
      = Inr \<lparr>Target = emptyURL\<lparr>Scheme := ''http'', Host := ''example.com''\<rparr>,
             Secret = configOnlySecret (AmpUpstreamAPIKey (cfgOf '' http://example.com '')) 0\<rparr>"
    by (simp add: t createReverseProxy_def Parse_example_com)
  have n: "(New None None)\<lparr>enabled := False\<rparr> = New None None" "enabled (New None None) = False"
    by (simp_all add: New_def)
  from C9_register [of "cfgOf ''  ''" configOnlySecret "New None None" "[]"]
    C9_register [of "cfgOf [CHR 0xC2, CHR 0xA0]" configOnlySecret "New None None" "[]"]
    C9_register [of "cfgOf ''://invalid''" configOnlySecret "New None None" "[]"
      "Wrapf ''invalid amp upstream url: ''
         (URLError ''parse'' ''://invalid'' (ErrorString ''missing protocol scheme''))"]
    C9_register [of "cfgOf '' http://example.com ''" configOnlySecret "New None None" "[]" _
      "\<lparr>Target = emptyURL\<lparr>Scheme := ''http'', Host := ''example.com''\<rparr>,
             Secret = configOnlySecret (AmpUpstreamAPIKey (cfgOf '' http://example.com '')) 0\<rparr>"]
    bad ok
  show ?thesis
    by (simp add: t n registerProviderAliases_def registerManagementRoutes_def)
qed

end
